theory Spec2Isabelle
  imports Main "HOL-Library.Word" "HOL-Library.Char_ord"
begin

unbundle bit_operations_syntax

section \<open>Replication slot management (slot.cpp)\<close>

subsection \<open>Scalar types and constants\<close>

text \<open>
  Modelled from the spec: the scalar types, their invalid values and the comparisons of
  log positions are declared in headers outside slot.cpp. \<open>XLogRecPtr\<close> is a 64-bit
  position (slot.cpp shifts it right by 32 to print it, and assigns 0 for the invalid
  one), \<open>Oid\<close> an unsigned 32-bit identifier and \<open>TransactionId\<close> a 64-bit
  identifier. Nothing below depends on the widths: the values are only copied and
  compared. Log positions are compared numerically.
\<close>

type_synonym TransactionId = "64 word"
type_synonym XLogRecPtr = "64 word"
type_synonym Oid = "32 word"
type_synonym pg_crc32c = "32 word"

definition InvalidTransactionId :: TransactionId where
  "InvalidTransactionId = 0"

definition InvalidXLogRecPtr :: XLogRecPtr where
  "InvalidXLogRecPtr = 0"

definition InvalidOid :: Oid where
  "InvalidOid = 0"

definition TransactionIdIsValid :: "TransactionId \<Rightarrow> bool" where
  "TransactionIdIsValid xid = (xid \<noteq> InvalidTransactionId)"

definition XLByteEQ :: "XLogRecPtr \<Rightarrow> XLogRecPtr \<Rightarrow> bool" where
  "XLByteEQ a b = (a = b)"

definition XLByteLT :: "XLogRecPtr \<Rightarrow> XLogRecPtr \<Rightarrow> bool" where
  "XLByteLT a b = (a < b)"

datatype ReplicationSlotPersistency = RS_PERSISTENT | RS_EPHEMERAL

datatype ServerMode =
  UNKNOWN_MODE | NORMAL_MODE | PRIMARY_MODE | STANDBY_MODE | CASCADE_STANDBY_MODE | PENDING_MODE

subsection \<open>Slot descriptors, the on-disk record and the backend state\<close>

text \<open>
  Modelled from the spec: the structs \<open>ReplicationSlotPersistentData\<close>,
  \<open>ReplicationSlot\<close> and \<open>ReplicationSlotOnDisk\<close> are declared in
  replication/slot.h. The fields are those the spec lists and slot.cpp reads and
  writes (the spinlock and the I/O lock of a slot are with the locks below). \<open>name\<close>
  holds the characters before the terminating NUL of the \<open>NameData\<close> buffer.
\<close>

record ReplicationSlotPersistentData =
  name :: string
  database :: Oid
  persistency :: ReplicationSlotPersistency
  isDummyStandby :: bool
  xmin :: TransactionId
  catalog_xmin :: TransactionId
  restart_lsn :: XLogRecPtr

record ReplicationSlot =
  in_use :: bool
  active :: bool
  just_dirtied :: bool
  dirty :: bool
  effective_xmin :: TransactionId
  effective_catalog_xmin :: TransactionId
  data :: ReplicationSlotPersistentData
  candidate_catalog_xmin :: TransactionId
  candidate_xmin_lsn :: XLogRecPtr
  candidate_restart_valid :: XLogRecPtr
  candidate_restart_lsn :: XLogRecPtr

text \<open>
  \<open>ReplicationSlotOnDisk\<close>: the constant header followed by the dynamic region
  \<open>slotdata\<close>. The field \<open>length\<close> of the C struct is \<open>length_field\<close> here.
\<close>

record ReplicationSlotOnDisk =
  magic :: "32 word"
  checksum :: pg_crc32c
  version :: "32 word"
  length_field :: "32 word"
  slotdata :: ReplicationSlotPersistentData

text \<open>
  A file under a slot directory either holds at least one whole record (a read of
  \<open>sizeof(ReplicationSlotOnDisk)\<close> bytes returns it) or is shorter than a record.
\<close>

datatype slot_file = FileRecord ReplicationSlotOnDisk | FileShort

datatype elevel = DEBUG1 | LOG | WARNING | ERROR | PANIC

datatype sqlerrcode =
  ERRCODE_INVALID_NAME
  | ERRCODE_NAME_TOO_LONG
  | ERRCODE_DUPLICATE_OBJECT
  | ERRCODE_UNDEFINED_OBJECT
  | ERRCODE_OBJECT_IN_USE
  | ERRCODE_CONFIGURATION_LIMIT_EXCEEDED
  | ERRCODE_FILE_ACCESS
  | ERRCODE_UNSPECIFIED

text \<open>A report: severity, error code and the format string of \<open>errmsg\<close>.\<close>

type_synonym report = "elevel \<times> sqlerrcode \<times> string"

datatype LWLockId =
  ReplicationSlotAllocationLock
  | ReplicationSlotControlLock
  | ProcArrayLock
  | io_in_progress_lock nat

datatype LWLockMode = LW_EXCLUSIVE | LW_SHARED

datatype io_op =
  IO_OPEN | IO_WRITE | IO_READ | IO_FSYNC | IO_CLOSE | IO_RENAME | IO_UNLINK
  | IO_MKDIR | IO_RMTREE | IO_FSYNC_FNAME

text \<open>
  What slot.cpp takes from its surroundings, as parameters: the constants
  \<open>NAMEDATALEN\<close>, \<open>SLOT_MAGIC\<close> and \<open>ReplicationSlotOnDiskDynamicSize\<close> of
  headers that are not part of the file; the checksum that \<open>INIT_CRC32C\<close>,
  \<open>COMP_CRC32C\<close> over the dynamic region and \<open>FIN_CRC32C\<close> compute, as a function
  of the dynamic region; the comparator \<open>TransactionIdPrecedes\<close>; the server's mode
  after \<open>load_server_mode\<close>; the value of \<open>RecoveryInProgress()\<close>; which system
  calls fail (\<open>io_fail op dir file\<close>, with \<open>file = []\<close> for a call on the directory
  itself); and what a failed \<open>write\<close> leaves in a file, given the file before the
  call and the record that was to be written (\<open>torn_write\<close>).
\<close>

record env =
  NAMEDATALEN :: nat
  SLOT_MAGIC :: "32 word"
  ReplicationSlotOnDiskDynamicSize :: "32 word"
  comp_crc32c :: "ReplicationSlotPersistentData \<Rightarrow> pg_crc32c"
  TransactionIdPrecedes :: "TransactionId \<Rightarrow> TransactionId \<Rightarrow> bool"
  server_mode :: ServerMode
  RecoveryInProgress :: bool
  io_fail :: "io_op \<Rightarrow> string \<Rightarrow> string \<Rightarrow> bool"
  torn_write :: "slot_file option \<Rightarrow> ReplicationSlotOnDisk \<Rightarrow> slot_file"

text \<open>
  The state slot.cpp works on: the shared slot array (its length is
  \<open>max_replication_slots\<close>), the session's current slot as an index into it, the
  directory \<open>pg_replslot\<close> (entry name to the files of that slot directory), the
  lightweight locks the session holds, the reports emitted below \<open>ERROR\<close>, and the
  values published to the process array and to the WAL module.
\<close>

record backend =
  replication_slots :: "ReplicationSlot list"
  MyReplicationSlot :: "nat option"
  pg_replslot :: "string \<rightharpoonup> (string \<rightharpoonup> slot_file)"
  held_lwlocks :: "(LWLockId \<times> LWLockMode) list"
  server_log :: "report list"
  replication_slot_xmin :: TransactionId
  replication_slot_catalog_xmin :: TransactionId
  replication_slot_min_lsn :: XLogRecPtr
  replication_slot_max_lsn :: XLogRecPtr
  in_logical_decoding :: bool

type_synonym 'a outcome = "(report + 'a) \<times> backend"

definition max_replication_slots :: "backend \<Rightarrow> nat" where
  "max_replication_slots st = length (replication_slots st)"

subsection \<open>Reports and locks\<close>

text \<open>
  Modelled from the spec: \<open>ereport\<close> and the lightweight locks belong to the
  server's logging and locking, outside slot.cpp. \<open>ereport\<close> at \<open>ERROR\<close> or
  \<open>PANIC\<close> does not return (\<open>Inl\<close>); below that the report is logged and the
  caller goes on. Acquiring a lock adds it to the locks the session holds, releasing
  removes it; waiting for a lock is not modelled.
\<close>

definition ereport :: "elevel \<Rightarrow> sqlerrcode \<Rightarrow> string \<Rightarrow> backend \<Rightarrow> unit outcome" where
  "ereport lvl code msg st =
     (if lvl = ERROR \<or> lvl = PANIC then (Inl (lvl, code, msg), st)
      else (Inr (), st\<lparr>server_log := server_log st @ [(lvl, code, msg)]\<rparr>))"

definition LWLockAcquire :: "LWLockId \<Rightarrow> LWLockMode \<Rightarrow> backend \<Rightarrow> backend" where
  "LWLockAcquire l m st = st\<lparr>held_lwlocks := (l, m) # held_lwlocks st\<rparr>"

definition LWLockRelease :: "LWLockId \<Rightarrow> backend \<Rightarrow> backend" where
  "LWLockRelease l st =
     st\<lparr>held_lwlocks :=
          (case List.find (\<lambda>h. fst h = l) (held_lwlocks st) of
             None \<Rightarrow> held_lwlocks st
           | Some h \<Rightarrow> remove1 h (held_lwlocks st))\<rparr>"

subsection \<open>Name validation\<close>

definition slot_name_char :: "char \<Rightarrow> bool" where
  "slot_name_char c =
     ((CHR ''a'' \<le> c \<and> c \<le> CHR ''z'') \<or> (CHR ''0'' \<le> c \<and> c \<le> CHR ''9'')
      \<or> c = CHR ''_'' \<or> c = CHR ''?'' \<or> c = CHR ''<'' \<or> c = CHR ''!''
      \<or> c = CHR ''-'' \<or> c = CHR ''.'')"

text \<open>The loop over the characters: the first bad character decides.\<close>

fun name_chars_ok :: "string \<Rightarrow> bool" where
  "name_chars_ok [] = True"
| "name_chars_ok (c # cs) = (if \<not> slot_name_char c then False else name_chars_ok cs)"

text \<open>\<open>ereport(elevel, ...); return false;\<close>\<close>

definition report_false :: "elevel \<Rightarrow> sqlerrcode \<Rightarrow> string \<Rightarrow> backend \<Rightarrow> bool outcome" where
  "report_false lvl code msg st =
     (case ereport lvl code msg st of
        (Inl e, st') \<Rightarrow> (Inl e, st')
      | (Inr _, st') \<Rightarrow> (Inr False, st'))"

definition ReplicationSlotValidateName ::
  "env \<Rightarrow> string option \<Rightarrow> elevel \<Rightarrow> backend \<Rightarrow> bool outcome" where
  "ReplicationSlotValidateName cfg nm lvl st =
     (case nm of
        None \<Rightarrow>
          report_false lvl ERRCODE_INVALID_NAME ''replication slot name should not be NULL.'' st
      | Some n \<Rightarrow>
          if length n = 0 then
            report_false lvl ERRCODE_INVALID_NAME ''replication slot name is too short'' st
          else if length n \<ge> NAMEDATALEN cfg then
            report_false lvl ERRCODE_NAME_TOO_LONG ''replication slot name is too long'' st
          else if \<not> name_chars_ok n then
            report_false lvl ERRCODE_INVALID_NAME
              ''replication slot name contains invalid character'' st
          else (Inr True, st))"

subsection \<open>Lookup\<close>

fun find_scan :: "string \<Rightarrow> ReplicationSlot list \<Rightarrow> bool" where
  "find_scan n [] = False"
| "find_scan n (s # ss) = (if in_use s \<and> n = name (data s) then True else find_scan n ss)"

text \<open>
  After validation at \<open>ERROR\<close> the name is not NULL; the \<open>None\<close> branch below is
  never reached.
\<close>

definition ReplicationSlotFind :: "env \<Rightarrow> string option \<Rightarrow> backend \<Rightarrow> bool outcome" where
  "ReplicationSlotFind cfg nm st =
     (case ReplicationSlotValidateName cfg nm ERROR st of
        (Inl e, st1) \<Rightarrow> (Inl e, st1)
      | (Inr _, st1) \<Rightarrow>
          (case nm of
             None \<Rightarrow> (Inr False, st1)
           | Some n \<Rightarrow>
               let st2 = LWLockAcquire ReplicationSlotControlLock LW_SHARED st1;
                   hasSlot = find_scan n (replication_slots st2);
                   st3 = LWLockRelease ReplicationSlotControlLock st2
               in (Inr hasSlot, st3)))"

subsection \<open>Aggregates\<close>

text \<open>
  The loop of \<open>ReplicationSlotsComputeRequiredXmin\<close>, with the two running minima.
  The comparator \<open>TransactionIdPrecedes\<close> is declared in access/transam.h and is a
  parameter.
\<close>

fun xmin_scan ::
  "(TransactionId \<Rightarrow> TransactionId \<Rightarrow> bool) \<Rightarrow> ReplicationSlot list \<Rightarrow>
   TransactionId \<times> TransactionId \<Rightarrow> TransactionId \<times> TransactionId" where
  "xmin_scan prec [] acc = acc"
| "xmin_scan prec (s # ss) (agg_xmin, agg_catalog_xmin) =
     (if \<not> in_use s then xmin_scan prec ss (agg_xmin, agg_catalog_xmin)
      else
        xmin_scan prec ss
          (if TransactionIdIsValid (effective_xmin s) \<and>
              (\<not> TransactionIdIsValid agg_xmin \<or> prec (effective_xmin s) agg_xmin)
           then effective_xmin s else agg_xmin,
           if TransactionIdIsValid (effective_catalog_xmin s) \<and>
              (\<not> TransactionIdIsValid agg_catalog_xmin \<or>
               prec (effective_catalog_xmin s) agg_catalog_xmin)
           then effective_catalog_xmin s else agg_catalog_xmin))"

text \<open>
  Modelled from the spec: \<open>ProcArraySetReplicationSlotXmin\<close> is defined in the
  process array. It stores the two values; when \<open>already_locked\<close> is false it takes
  and releases \<open>ProcArrayLock\<close> around the store.
\<close>

definition ProcArraySetReplicationSlotXmin ::
  "TransactionId \<Rightarrow> TransactionId \<Rightarrow> bool \<Rightarrow> backend \<Rightarrow> backend" where
  "ProcArraySetReplicationSlotXmin x cx already_locked st =
     st\<lparr>replication_slot_xmin := x, replication_slot_catalog_xmin := cx\<rparr>"

definition ReplicationSlotsComputeRequiredXmin :: "env \<Rightarrow> bool \<Rightarrow> backend \<Rightarrow> backend" where
  "ReplicationSlotsComputeRequiredXmin cfg already_locked st =
     (let st1 = LWLockAcquire ReplicationSlotControlLock LW_SHARED st;
          agg = xmin_scan (TransactionIdPrecedes cfg) (replication_slots st1)
                  (InvalidTransactionId, InvalidTransactionId);
          st2 = LWLockRelease ReplicationSlotControlLock st1
      in ProcArraySetReplicationSlotXmin (fst agg) (snd agg) already_locked st2)"

record ReplicationSlotState =
  min_required :: XLogRecPtr
  max_required :: XLogRecPtr
  exist_in_use :: bool

text \<open>The loop of \<open>ReplicationSlotsComputeRequiredLSN\<close>: (min, max, in_use).\<close>

fun lsn_scan ::
  "ServerMode \<Rightarrow> ReplicationSlot list \<Rightarrow> XLogRecPtr \<times> XLogRecPtr \<times> bool \<Rightarrow>
   XLogRecPtr \<times> XLogRecPtr \<times> bool" where
  "lsn_scan mode [] acc = acc"
| "lsn_scan mode (s # ss) (min_req, max_req, used) =
     (if mode \<noteq> PRIMARY_MODE \<and> mode \<noteq> PENDING_MODE \<and> database (data s) = InvalidOid
      then lsn_scan mode ss (min_req, max_req, used)
      else if \<not> in_use s then lsn_scan mode ss (min_req, max_req, used)
      else
        (let lsn = restart_lsn (data s);
             min_req' = (if \<not> XLByteEQ lsn InvalidXLogRecPtr \<and>
                            (XLByteEQ min_req InvalidXLogRecPtr \<or> XLByteLT lsn min_req)
                         then lsn else min_req);
             max_req' = (if XLByteLT max_req lsn then lsn else max_req)
         in lsn_scan mode ss (min_req', max_req', True)))"

text \<open>
  \<open>repl_slt_state\<close> is the caller's struct: \<open>None\<close> for a NULL pointer, \<open>Some s\<close>
  for a struct whose fields hold \<open>s\<close> at the call. The result pairs the struct after
  the call with the new state.
\<close>

definition ReplicationSlotsComputeRequiredLSN ::
  "env \<Rightarrow> ReplicationSlotState option \<Rightarrow> backend \<Rightarrow> ReplicationSlotState option \<times> backend" where
  "ReplicationSlotsComputeRequiredLSN cfg repl_slt_state st =
     (if max_replication_slots st = 0 then (repl_slt_state, st)
      else
        (let st1 = LWLockAcquire ReplicationSlotControlLock LW_SHARED st;
             r = lsn_scan (server_mode cfg) (replication_slots st1)
                   (InvalidXLogRecPtr, InvalidXLogRecPtr, False);
             st2 = LWLockRelease ReplicationSlotControlLock st1;
             st3 = st2\<lparr>replication_slot_min_lsn := fst r,
                       replication_slot_max_lsn := fst (snd r)\<rparr>
         in (case repl_slt_state of
               None \<Rightarrow> (None, st3)
             | Some _ \<Rightarrow>
                 (Some \<lparr>min_required = fst r, max_required = fst (snd r),
                        exist_in_use = snd (snd r)\<rparr>, st3))))"

text \<open>The loop of \<open>ReplicationSlotsComputeLogicalRestartLSN\<close>.\<close>

fun logical_lsn_scan :: "ReplicationSlot list \<Rightarrow> XLogRecPtr \<Rightarrow> XLogRecPtr" where
  "logical_lsn_scan [] result = result"
| "logical_lsn_scan (s # ss) result =
     (if \<not> in_use s then logical_lsn_scan ss result
      else if database (data s) = InvalidOid then logical_lsn_scan ss result
      else if XLByteEQ result InvalidXLogRecPtr \<or> XLByteLT (restart_lsn (data s)) result
      then logical_lsn_scan ss (restart_lsn (data s))
      else logical_lsn_scan ss result)"

definition ReplicationSlotsComputeLogicalRestartLSN :: "backend \<Rightarrow> XLogRecPtr" where
  "ReplicationSlotsComputeLogicalRestartLSN st =
     (if max_replication_slots st \<le> 0 then InvalidXLogRecPtr
      else logical_lsn_scan (replication_slots st) InvalidXLogRecPtr)"

subsection \<open>Sequencing and slot access\<close>

definition and_then :: "'a outcome \<Rightarrow> ('a \<Rightarrow> backend \<Rightarrow> 'b outcome) \<Rightarrow> 'b outcome" where
  "and_then r f = (case r of (Inl e, st) \<Rightarrow> (Inl e, st) | (Inr x, st) \<Rightarrow> f x st)"

text \<open>A write through a slot pointer; the pointer is the index of the array entry.\<close>

definition slot_update :: "nat \<Rightarrow> (ReplicationSlot \<Rightarrow> ReplicationSlot) \<Rightarrow> backend \<Rightarrow> backend" where
  "slot_update i f st =
     st\<lparr>replication_slots := (replication_slots st)[i := f (replication_slots st ! i)]\<rparr>"

subsection \<open>Files of the slot directories\<close>

definition dir_exists :: "backend \<Rightarrow> string \<Rightarrow> bool" where
  "dir_exists st d = (pg_replslot st d \<noteq> None)"

definition file_at :: "backend \<Rightarrow> string \<Rightarrow> string \<Rightarrow> slot_file option" where
  "file_at st d f = (case pg_replslot st d of None \<Rightarrow> None | Some files \<Rightarrow> files f)"

definition set_file :: "string \<Rightarrow> string \<Rightarrow> slot_file option \<Rightarrow> backend \<Rightarrow> backend" where
  "set_file d f c st =
     (case pg_replslot st d of
        None \<Rightarrow> st
      | Some files \<Rightarrow> st\<lparr>pg_replslot := (pg_replslot st)(d \<mapsto> files(f := c))\<rparr>)"

text \<open>
  A slot directory holds the three files that slot.cpp names and no other; it is empty
  when none of them exists. \<open>rename\<close> of a directory onto an existing one fails
  unless that one is empty.
\<close>

definition dir_is_empty :: "(string \<rightharpoonup> slot_file) \<Rightarrow> bool" where
  "dir_is_empty files =
     (case (files ''state'', files ''state.tmp'', files ''state.backup'') of
        (None, None, None) \<Rightarrow> True
      | _ \<Rightarrow> False)"

text \<open>
  Modelled from the spec: \<open>fsync_fname\<close> is defined in storage/fd. It reports a
  failure at \<open>ERROR\<close>; inside a critical section every \<open>ERROR\<close> is a \<open>PANIC\<close>.
  The directory \<open>pg_replslot\<close> itself is \<open>d = []\<close>.
\<close>

definition fsync_fname :: "env \<Rightarrow> bool \<Rightarrow> string \<Rightarrow> string \<Rightarrow> backend \<Rightarrow> unit outcome" where
  "fsync_fname cfg in_crit d f st =
     (if io_fail cfg IO_FSYNC_FNAME d f
      then (Inl (if in_crit then PANIC else ERROR, ERRCODE_FILE_ACCESS, ''could not fsync file''), st)
      else (Inr (), st))"

text \<open>\<open>if (close(fd)) ereport(elevel, ...)\<close>\<close>

definition close_file :: "env \<Rightarrow> string \<Rightarrow> string \<Rightarrow> elevel \<Rightarrow> backend \<Rightarrow> unit outcome" where
  "close_file cfg d f lvl st =
     (if io_fail cfg IO_CLOSE d f
      then ereport lvl ERRCODE_FILE_ACCESS ''could not close file'' st
      else (Inr (), st))"

text \<open>
  Modelled from the spec: \<open>rmtree\<close> is defined outside slot.cpp. \<open>rmtree(path, true)\<close>
  returns false when the removal fails, and the directory stays.
\<close>

definition rmtree :: "env \<Rightarrow> string \<Rightarrow> backend \<Rightarrow> bool \<times> backend" where
  "rmtree cfg d st =
     (if io_fail cfg IO_RMTREE d [] then (False, st)
      else (True, st\<lparr>pg_replslot := (pg_replslot st)(d := None)\<rparr>))"

subsection \<open>Writing a slot: SaveSlotToPath\<close>

definition build_record :: "env \<Rightarrow> ReplicationSlot \<Rightarrow> ReplicationSlotOnDisk" where
  "build_record cfg s =
     \<lparr>magic = SLOT_MAGIC cfg,
      checksum = comp_crc32c cfg (data s),
      version = 1,
      length_field = ReplicationSlotOnDiskDynamicSize cfg,
      slotdata = data s\<rparr>"

text \<open>
  One round of the loop over \<open>state.backup\<close> and \<open>state.tmp\<close>. \<open>Inr True\<close>: the
  file is written and the loop goes on; \<open>Inr False\<close>: a failure was reported below
  \<open>ERROR\<close> and \<open>SaveSlotToPath\<close> has returned. The files are opened without
  \<open>O_TRUNC\<close>: a whole record written at offset 0 is what a later read returns.
\<close>

definition write_state_file ::
  "env \<Rightarrow> nat \<Rightarrow> string \<Rightarrow> string \<Rightarrow>
   elevel \<Rightarrow> backend \<Rightarrow> bool outcome" where
  "write_state_file cfg i dir fname lvl st =
     (if io_fail cfg IO_OPEN dir fname \<or> \<not> dir_exists st dir then
        report_false lvl ERRCODE_FILE_ACCESS ''could not create file''
          (LWLockRelease (io_in_progress_lock i) st)
      else
        (let st1 = (case file_at st dir fname of
                      None \<Rightarrow> set_file dir fname (Some FileShort) st
                    | Some _ \<Rightarrow> st);
             cp = build_record cfg (replication_slots st1 ! i)
         in if io_fail cfg IO_WRITE dir fname then
              and_then
                (close_file cfg dir fname lvl
                   (set_file dir fname (Some (torn_write cfg (file_at st1 dir fname) cp)) st1))
                (\<lambda>_ st3. report_false lvl ERRCODE_FILE_ACCESS ''could not write to file''
                            (LWLockRelease (io_in_progress_lock i) st3))
            else if io_fail cfg IO_FSYNC dir fname then
              and_then
                (close_file cfg dir fname lvl (set_file dir fname (Some (FileRecord cp)) st1))
                (\<lambda>_ st3. report_false lvl ERRCODE_FILE_ACCESS ''could not fsync file''
                            (LWLockRelease (io_in_progress_lock i) st3))
            else
              and_then
                (close_file cfg dir fname lvl (set_file dir fname (Some (FileRecord cp)) st1))
                (\<lambda>_ st3. (Inr True, st3))))"

text \<open>
  \<open>SaveSlotToPath\<close>. The spinlock is held only for the first read, for each copy of
  the slot into the record and for the last test; \<open>other k\<close> is what the session that
  owns the slot does to it in between: before the first copy (\<open>k = 0\<close>), between the
  two copies (\<open>k = 1\<close>) and after the files are in place (\<open>k = 2\<close>).
\<close>

definition SaveSlotToPath ::
  "env \<Rightarrow>
   (nat \<Rightarrow> ReplicationSlot \<Rightarrow> ReplicationSlot) \<Rightarrow> nat \<Rightarrow> string \<Rightarrow> elevel \<Rightarrow> backend \<Rightarrow>
   unit outcome" where
  "SaveSlotToPath cfg other i dir lvl st =
     (let was_dirty = dirty (replication_slots st ! i);
          st1 = slot_update i (\<lambda>s. s\<lparr>just_dirtied := False\<rparr>) st
      in if \<not> was_dirty then (Inr (), st1)
         else
           and_then
             (write_state_file cfg i dir ''state.backup'' lvl
                (LWLockAcquire (io_in_progress_lock i) LW_EXCLUSIVE (slot_update i (other 0) st1)))
             (\<lambda>go st2.
                if \<not> go then (Inr (), st2)
                else
                  and_then
                    (write_state_file cfg i dir ''state.tmp'' lvl (slot_update i (other 1) st2))
                    (\<lambda>go st3.
                       if \<not> go then (Inr (), st3)
                       else if io_fail cfg IO_RENAME dir ''state.tmp'' then
                         and_then
                           (ereport lvl ERRCODE_FILE_ACCESS ''could not rename''
                              (LWLockRelease (io_in_progress_lock i) st3))
                           (\<lambda>_ st4. (Inr (), st4))
                       else
                         (let st4 = set_file dir ''state'' (file_at st3 dir ''state.tmp'')
                                      (set_file dir ''state.tmp'' None st3)
                          in and_then (fsync_fname cfg True dir ''state'' st4)
                               (\<lambda>_ st5. and_then (fsync_fname cfg True dir [] st5)
                               (\<lambda>_ st6. and_then (fsync_fname cfg True [] [] st6)
                               (\<lambda>_ st7.
                                  (Inr (),
                                   LWLockRelease (io_in_progress_lock i)
                                     (slot_update i
                                        (\<lambda>s. if \<not> just_dirtied s then s\<lparr>dirty := False\<rparr> else s)
                                        (slot_update i (other 2) st7))))))))))"

definition ReplicationSlotMarkDirty :: "backend \<Rightarrow> backend" where
  "ReplicationSlotMarkDirty st =
     (case MyReplicationSlot st of
        None \<Rightarrow> st
      | Some i \<Rightarrow> slot_update i (\<lambda>s. s\<lparr>just_dirtied := True, dirty := True\<rparr>) st)"

subsection \<open>CreateSlotOnDisk and ReplicationSlotSave\<close>

definition CreateSlotOnDisk ::
  "env \<Rightarrow>
   (nat \<Rightarrow> ReplicationSlot \<Rightarrow> ReplicationSlot) \<Rightarrow> nat \<Rightarrow> backend \<Rightarrow> unit outcome" where
  "CreateSlotOnDisk cfg other i st =
     (let path = name (data (replication_slots st ! i));
          tmppath = path @ ''.tmp''
      in and_then
           (if dir_exists st tmppath then
              (case rmtree cfg tmppath st of
                 (False, st1) \<Rightarrow> (Inl (ERROR, ERRCODE_FILE_ACCESS, ''could not rm directory''), st1)
               | (True, st1) \<Rightarrow> (Inr (), st1))
            else (Inr (), st))
           (\<lambda>_ st1.
              if io_fail cfg IO_MKDIR tmppath [] \<or> dir_exists st1 tmppath then
                (Inl (ERROR, ERRCODE_FILE_ACCESS, ''could not create directory''), st1)
              else
                and_then
                  (fsync_fname cfg False tmppath []
                     (st1\<lparr>pg_replslot := (pg_replslot st1)(tmppath \<mapsto> Map.empty)\<rparr>))
                  (\<lambda>_ st2. and_then
                     (SaveSlotToPath cfg other i tmppath ERROR
                        (slot_update i (\<lambda>s. s\<lparr>dirty := True\<rparr>) st2))
                  (\<lambda>_ st3.
                     if io_fail cfg IO_RENAME tmppath [] \<or> \<not> dir_exists st3 tmppath \<or>
                        (case pg_replslot st3 path of
                           None \<Rightarrow> False
                         | Some files \<Rightarrow> \<not> dir_is_empty files)
                     then (Inl (ERROR, ERRCODE_FILE_ACCESS, ''could not rename file''), st3)
                     else
                       (let st4 = st3\<lparr>pg_replslot :=
                                        (pg_replslot st3)(path := pg_replslot st3 tmppath,
                                                          tmppath := None)\<rparr>
                        in and_then (fsync_fname cfg True path [] st4)
                             (\<lambda>_ st5. and_then (fsync_fname cfg True [] [] st5)
                             (\<lambda>_ st6.
                                if \<not> RecoveryInProgress cfg then
                                  ereport LOG ERRCODE_FILE_ACCESS
                                    ''create slot on disk successfully'' st6
                                else (Inr (), st6))))))))"

definition ReplicationSlotSave ::
  "env \<Rightarrow>
   (nat \<Rightarrow> ReplicationSlot \<Rightarrow> ReplicationSlot) \<Rightarrow> backend \<Rightarrow> unit outcome" where
  "ReplicationSlotSave cfg other st =
     (case MyReplicationSlot st of
        None \<Rightarrow> (Inl (PANIC, ERRCODE_UNSPECIFIED, ''failed Assert: MyReplicationSlot != NULL''), st)
      | Some i \<Rightarrow>
          (let path = name (data (replication_slots st ! i))
           in and_then
                (if \<not> dir_exists st path then CreateSlotOnDisk cfg other i st
                 else (Inr (), st))
                (\<lambda>_ st1. SaveSlotToPath cfg other i path ERROR st1)))"

subsection \<open>Acquire and create\<close>

fun acquire_scan :: "string \<Rightarrow> ReplicationSlot list \<Rightarrow> nat \<Rightarrow> nat option" where
  "acquire_scan n [] i = None"
| "acquire_scan n (s # ss) i =
     (if in_use s \<and> n = name (data s) then Some i else acquire_scan n ss (Suc i))"

definition ReplicationSlotAcquire :: "env \<Rightarrow> string option \<Rightarrow> bool \<Rightarrow> backend \<Rightarrow> unit outcome" where
  "ReplicationSlotAcquire cfg nm isDummy st =
     and_then (ReplicationSlotValidateName cfg nm ERROR st)
       (\<lambda>_ st1.
          case nm of
            None \<Rightarrow> (Inr (), st1)
          | Some n \<Rightarrow>
              (let st2 = LWLockAcquire ReplicationSlotControlLock LW_SHARED st1
               in case acquire_scan n (replication_slots st2) 0 of
                    None \<Rightarrow>
                      (Inl (ERROR, ERRCODE_UNDEFINED_OBJECT, ''replication slot does not exist''),
                       LWLockRelease ReplicationSlotControlLock st2)
                  | Some i \<Rightarrow>
                      (let was_active = active (replication_slots st2 ! i);
                           st3 = LWLockRelease ReplicationSlotControlLock
                                   (slot_update i (\<lambda>s. s\<lparr>active := True\<rparr>) st2);
                           slot = replication_slots st3 ! i
                       in and_then
                            (if was_active then
                               (if database (data slot) \<noteq> InvalidOid \<or>
                                   isDummy \<noteq> isDummyStandby (data slot)
                                then ereport ERROR ERRCODE_OBJECT_IN_USE
                                       ''replication slot is already active'' st3
                                else ereport WARNING ERRCODE_OBJECT_IN_USE
                                       ''replication slot is already active'' st3)
                             else (Inr (), st3))
                            (\<lambda>_ st4.
                               (Inr (),
                                (if database (data slot) \<noteq> InvalidOid then
                                   slot_update i
                                     (\<lambda>s. s\<lparr>candidate_restart_lsn := InvalidXLogRecPtr,
                                            candidate_restart_valid := InvalidXLogRecPtr,
                                            candidate_xmin_lsn := InvalidXLogRecPtr,
                                            candidate_catalog_xmin := InvalidTransactionId\<rparr>) st4
                                 else st4)\<lparr>MyReplicationSlot := Some i\<rparr>)))))"

text \<open>
  The first loop of \<open>ReplicationSlotCreate\<close>: \<open>Inl i\<close> when entry \<open>i\<close> is in use
  under the same name, otherwise \<open>Inr\<close> the first free entry, if any.
\<close>

fun create_scan :: "string \<Rightarrow> ReplicationSlot list \<Rightarrow> nat \<Rightarrow> nat option \<Rightarrow> nat + nat option" where
  "create_scan n [] i slot = Inr slot"
| "create_scan n (s # ss) i slot =
     (if in_use s \<and> n = name (data s) then Inl i
      else create_scan n ss (Suc i) (if \<not> in_use s \<and> slot = None then Some i else slot))"

text \<open>The second loop, run when every entry is taken: one LOG line per slot in use.\<close>

fun log_slot_names :: "ReplicationSlot list \<Rightarrow> backend \<Rightarrow> backend" where
  "log_slot_names [] st = st"
| "log_slot_names (s # ss) st =
     log_slot_names ss
       (if in_use s then st\<lparr>server_log := server_log st @ [(LOG, ERRCODE_UNSPECIFIED, ''Slot Name: '' @ name (data s))]\<rparr>
        else st)"

definition ReplicationSlotCreate ::
  "env \<Rightarrow> string option \<Rightarrow>
   ReplicationSlotPersistency \<Rightarrow> bool \<Rightarrow> Oid \<Rightarrow> XLogRecPtr \<Rightarrow> backend \<Rightarrow> unit outcome" where
  "ReplicationSlotCreate cfg nm pers isDummy databaseId lsn st =
     and_then (ReplicationSlotValidateName cfg nm ERROR st)
       (\<lambda>_ st1.
          case nm of
            None \<Rightarrow> (Inr (), st1)
          | Some n \<Rightarrow>
              (let st2 = LWLockAcquire ReplicationSlotControlLock LW_SHARED
                           (LWLockAcquire ReplicationSlotAllocationLock LW_EXCLUSIVE st1)
               in case create_scan n (replication_slots st2) 0 None of
                    Inl _ \<Rightarrow>
                      and_then
                        (if databaseId = InvalidOid then
                           ereport WARNING ERRCODE_DUPLICATE_OBJECT
                             ''replication slot already exists''
                             (LWLockRelease ReplicationSlotAllocationLock
                                (LWLockRelease ReplicationSlotControlLock st2))
                         else
                           ereport ERROR ERRCODE_DUPLICATE_OBJECT
                             ''replication slot already exists''
                             (LWLockRelease ReplicationSlotAllocationLock
                                (LWLockRelease ReplicationSlotControlLock st2)))
                        (\<lambda>_ st3. ReplicationSlotAcquire cfg nm isDummy st3)
                  | Inr None \<Rightarrow>
                      (Inl (ERROR, ERRCODE_CONFIGURATION_LIMIT_EXCEEDED,
                            ''all replication slots are in use''),
                       LWLockRelease ReplicationSlotControlLock
                         (log_slot_names (replication_slots st2) st2))
                  | Inr (Some i) \<Rightarrow>
                      and_then
                        (CreateSlotOnDisk cfg (\<lambda>_ s. s) i
                           (slot_update i
                              (\<lambda>s. s\<lparr>effective_xmin := InvalidTransactionId,
                                     data := (data s)\<lparr>persistency := pers,
                                                       xmin := InvalidTransactionId,
                                                       name := take (NAMEDATALEN cfg - 1) n,
                                                       database := databaseId,
                                                       restart_lsn := lsn,
                                                       isDummyStandby := isDummy\<rparr>\<rparr>)
                              (LWLockRelease ReplicationSlotControlLock st2)))
                        (\<lambda>_ st3.
                           (Inr (),
                            LWLockRelease ReplicationSlotAllocationLock
                              (LWLockRelease ReplicationSlotControlLock
                                 ((slot_update i (\<lambda>s. s\<lparr>in_use := True, active := True\<rparr>)
                                     (LWLockAcquire ReplicationSlotControlLock LW_EXCLUSIVE st3))
                                  \<lparr>MyReplicationSlot := Some i\<rparr>))))))"

subsection \<open>Release and drop\<close>

definition ReplicationSlotDropAcquired :: "env \<Rightarrow> backend \<Rightarrow> unit outcome" where
  "ReplicationSlotDropAcquired cfg st =
     (case MyReplicationSlot st of
        None \<Rightarrow> (Inl (PANIC, ERRCODE_UNSPECIFIED, ''failed Assert: MyReplicationSlot != NULL''), st)
      | Some i \<Rightarrow>
          (let st1 = LWLockAcquire ReplicationSlotAllocationLock LW_EXCLUSIVE
                       (st\<lparr>MyReplicationSlot := None\<rparr>);
               path = name (data (replication_slots st1 ! i));
               tmppath = path @ ''.tmp''
           in and_then
                (if \<not> (io_fail cfg IO_RENAME path [] \<or> \<not> dir_exists st1 path \<or>
                        (case pg_replslot st1 tmppath of
                           None \<Rightarrow> False
                         | Some files \<Rightarrow> \<not> dir_is_empty files))
                 then
                   and_then
                     (fsync_fname cfg True tmppath []
                        (st1\<lparr>pg_replslot := (pg_replslot st1)(tmppath := pg_replslot st1 path,
                                                              path := None)\<rparr>))
                     (\<lambda>_ st2. fsync_fname cfg True [] [] st2)
                 else
                   ereport
                     (if persistency (data (replication_slots st1 ! i)) = RS_EPHEMERAL
                      then WARNING else ERROR)
                     ERRCODE_FILE_ACCESS ''could not rename''
                     (slot_update i (\<lambda>s. s\<lparr>active := False\<rparr>) st1))
                (\<lambda>_ st2.
                   (let st3 = LWLockRelease ReplicationSlotControlLock
                                (slot_update i (\<lambda>s. s\<lparr>active := False, in_use := False\<rparr>)
                                   (LWLockAcquire ReplicationSlotControlLock LW_EXCLUSIVE st2));
                        st4 = ReplicationSlotsComputeRequiredXmin cfg False st3;
                        st5 = snd (ReplicationSlotsComputeRequiredLSN cfg None st4)
                    in case rmtree cfg tmppath st5 of
                         (False, st6) \<Rightarrow>
                           and_then
                             (ereport WARNING ERRCODE_FILE_ACCESS ''could not remove directory'' st6)
                             (\<lambda>_ st7. (Inr (), LWLockRelease ReplicationSlotAllocationLock st7))
                       | (True, st6) \<Rightarrow>
                           (Inr (), LWLockRelease ReplicationSlotAllocationLock st6)))))"

definition ReplicationSlotRelease :: "env \<Rightarrow> backend \<Rightarrow> unit outcome" where
  "ReplicationSlotRelease cfg st =
     (case MyReplicationSlot st of
        None \<Rightarrow> (Inr (), st\<lparr>MyReplicationSlot := None\<rparr>)
      | Some i \<Rightarrow>
          if \<not> active (replication_slots st ! i) then (Inr (), st\<lparr>MyReplicationSlot := None\<rparr>)
          else
            and_then
              (if persistency (data (replication_slots st ! i)) = RS_EPHEMERAL
               then ReplicationSlotDropAcquired cfg st
               else (Inr (), slot_update i (\<lambda>s. s\<lparr>active := False\<rparr>) st))
              (\<lambda>_ st1.
                 (let slot = replication_slots st1 ! i;
                      st2 = (if \<not> TransactionIdIsValid (xmin (data slot)) \<and>
                                TransactionIdIsValid (effective_xmin slot)
                             then ReplicationSlotsComputeRequiredXmin cfg False
                                    (slot_update i
                                       (\<lambda>s. s\<lparr>effective_xmin := InvalidTransactionId\<rparr>) st1)
                             else st1);
                      st3 = st2\<lparr>MyReplicationSlot := None\<rparr>
                  in (Inr (),
                      LWLockRelease ProcArrayLock
                        ((LWLockAcquire ProcArrayLock LW_EXCLUSIVE st3)
                         \<lparr>in_logical_decoding := False\<rparr>)))))"

subsection \<open>Restoring a slot at startup\<close>

text \<open>
  Open, fsync, read one record, close: the part of \<open>RestoreSlotFromDisk\<close> between the
  label \<open>loop\<close> and the checksum test. Every failure is a \<open>PANIC\<close>.
\<close>

definition read_state_file :: "env \<Rightarrow> string \<Rightarrow> string \<Rightarrow> backend \<Rightarrow> ReplicationSlotOnDisk outcome" where
  "read_state_file cfg d f st =
     (case (if io_fail cfg IO_OPEN d f then None else file_at st d f) of
        None \<Rightarrow> (Inl (PANIC, ERRCODE_FILE_ACCESS, ''could not open file''), st)
      | Some content \<Rightarrow>
          if io_fail cfg IO_FSYNC d f then
            and_then (close_file cfg d f PANIC st)
              (\<lambda>_ st1. (Inl (PANIC, ERRCODE_FILE_ACCESS, ''could not fsync file''), st1))
          else
            and_then (fsync_fname cfg True d f st)
              (\<lambda>_ st1.
                 case (if io_fail cfg IO_READ d f then FileShort else content) of
                   FileShort \<Rightarrow>
                     and_then (close_file cfg d f PANIC st1)
                       (\<lambda>_ st2. (Inl (PANIC, ERRCODE_FILE_ACCESS, ''could not read file''), st2))
                 | FileRecord cp \<Rightarrow>
                     and_then (close_file cfg d f PANIC st1) (\<lambda>_ st2. (Inr cp, st2))))"

text \<open>
  The \<open>goto loop\<close> of \<open>RestoreSlotFromDisk\<close>: read \<open>fname\<close> and verify checksum,
  magic and length, in this order. The first failure with \<open>ignore_bak\<close> unset warns and
  starts over on \<open>state.backup\<close> with \<open>ignore_bak\<close> and \<open>retry\<close> set; a failure with
  \<open>ignore_bak\<close> set is a \<open>PANIC\<close>. The result is the verified record and \<open>retry\<close>.
\<close>

function restore_loop ::
  "env \<Rightarrow> string \<Rightarrow> string \<Rightarrow> bool \<Rightarrow> bool \<Rightarrow> backend \<Rightarrow> (ReplicationSlotOnDisk \<times> bool) outcome" where
  "restore_loop cfg nm fname ignore_bak retry st =
     (case read_state_file cfg nm fname st of
        (Inl e, st1) \<Rightarrow> (Inl e, st1)
      | (Inr cp, st1) \<Rightarrow>
          if comp_crc32c cfg (slotdata cp) \<noteq> checksum cp then
            (if \<not> ignore_bak then
               restore_loop cfg nm ''state.backup'' True True
                 (st1\<lparr>server_log := server_log st1 @
                        [(WARNING, ERRCODE_UNSPECIFIED, ''checksum mismatch, try backup file'')]\<rparr>)
             else (Inl (PANIC, ERRCODE_UNSPECIFIED, ''checksum mismatch''), st1))
          else if magic cp \<noteq> SLOT_MAGIC cfg then
            (if \<not> ignore_bak then
               restore_loop cfg nm ''state.backup'' True True
                 (st1\<lparr>server_log := server_log st1 @
                        [(WARNING, ERRCODE_FILE_ACCESS, ''wrong magic, try backup file'')]\<rparr>)
             else (Inl (PANIC, ERRCODE_FILE_ACCESS, ''wrong magic''), st1))
          else if length_field cp \<noteq> ReplicationSlotOnDiskDynamicSize cfg then
            (if \<not> ignore_bak then
               restore_loop cfg nm ''state.backup'' True True
                 (st1\<lparr>server_log := server_log st1 @
                        [(WARNING, ERRCODE_FILE_ACCESS, ''corrupted length, try backup file'')]\<rparr>)
             else (Inl (PANIC, ERRCODE_FILE_ACCESS, ''corrupted length''), st1))
          else (Inr (cp, retry), st1))"
  by pat_completeness auto
termination
  by (relation "measure (\<lambda>(cfg, nm, fname, ignore_bak, retry, st). if ignore_bak then 0 else 1)")
    auto

declare restore_loop.simps [simp del]

definition RecoverReplSlotFile :: "env \<Rightarrow> ReplicationSlotOnDisk \<Rightarrow> string \<Rightarrow> backend \<Rightarrow> unit outcome" where
  "RecoverReplSlotFile cfg cp nm st =
     (let st1 = st\<lparr>server_log := server_log st @
                     [(WARNING, ERRCODE_UNSPECIFIED, ''recover the replication slot file'')]\<rparr>
      in if io_fail cfg IO_OPEN nm ''state'' \<or>
            (case file_at st1 nm ''state'' of None \<Rightarrow> True | Some _ \<Rightarrow> False) then
           (Inl (PANIC, ERRCODE_FILE_ACCESS, ''recover failed could not open slot file''), st1)
         else if io_fail cfg IO_WRITE nm ''state'' then
           (Inl (PANIC, ERRCODE_FILE_ACCESS, ''recover failed could not write to slot file''),
            set_file nm ''state'' (Some (torn_write cfg (Some FileShort) cp)) st1)
         else if io_fail cfg IO_FSYNC nm ''state'' then
           (Inl (PANIC, ERRCODE_FILE_ACCESS, ''recover failed could not fsync slot file''),
            set_file nm ''state'' (Some (FileRecord cp)) st1)
         else if io_fail cfg IO_CLOSE nm ''state'' then
           (Inl (PANIC, ERRCODE_FILE_ACCESS, ''recover failed could not close slot file''),
            set_file nm ''state'' (Some (FileRecord cp)) st1)
         else (Inr (), set_file nm ''state'' (Some (FileRecord cp)) st1))"

text \<open>The last loop of \<open>RestoreSlotFromDisk\<close>: the first entry not in use takes the record.\<close>

fun restore_into :: "ReplicationSlotOnDisk \<Rightarrow> ReplicationSlot list \<Rightarrow> ReplicationSlot list option" where
  "restore_into cp [] = None"
| "restore_into cp (s # ss) =
     (if in_use s then map_option ((#) s) (restore_into cp ss)
      else Some (s\<lparr>data := slotdata cp,
                   effective_xmin := xmin (slotdata cp),
                   effective_catalog_xmin := catalog_xmin (slotdata cp),
                   candidate_catalog_xmin := InvalidTransactionId,
                   candidate_xmin_lsn := InvalidXLogRecPtr,
                   candidate_restart_lsn := InvalidXLogRecPtr,
                   candidate_restart_valid := InvalidXLogRecPtr,
                   in_use := True,
                   active := False\<rparr> # ss))"

definition RestoreSlotFromDisk :: "env \<Rightarrow> string \<Rightarrow> backend \<Rightarrow> unit outcome" where
  "RestoreSlotFromDisk cfg nm st =
     (if io_fail cfg IO_UNLINK nm ''state.tmp'' then
        (Inl (PANIC, ERRCODE_FILE_ACCESS, ''could not unlink file''), st)
      else
        (let ignore_bak = (case file_at st nm ''state.tmp'' of None \<Rightarrow> False | Some _ \<Rightarrow> True);
             st1 = set_file nm ''state.tmp'' None st
         in and_then
              (if ignore_bak then
                 (if io_fail cfg IO_UNLINK nm ''state.backup'' then
                    (Inl (PANIC, ERRCODE_FILE_ACCESS, ''could not unlink file''), st1)
                  else (Inr (), set_file nm ''state.backup'' None st1))
               else (Inr (), st1))
              (\<lambda>_ st2.
                 and_then (restore_loop cfg nm ''state'' ignore_bak False st2)
                   (\<lambda>r st3.
                      if persistency (slotdata (fst r)) \<noteq> RS_PERSISTENT then
                        (case rmtree cfg nm st3 of
                           (False, st4) \<Rightarrow>
                             and_then
                               (ereport WARNING ERRCODE_FILE_ACCESS
                                  ''could not remove directory'' st4)
                               (\<lambda>_ st5. fsync_fname cfg False [] [] st5)
                         | (True, st4) \<Rightarrow> fsync_fname cfg False [] [] st4)
                      else
                        and_then
                          (if snd r then RecoverReplSlotFile cfg (fst r) nm st3 else (Inr (), st3))
                          (\<lambda>_ st4.
                             case restore_into (fst r) (replication_slots st4) of
                               None \<Rightarrow>
                                 (Inl (PANIC, ERRCODE_UNSPECIFIED,
                                       ''too many replication slots active before shutdown''), st4)
                             | Some slots \<Rightarrow> (Inr (), st4\<lparr>replication_slots := slots\<rparr>))))))"

subsection \<open>Notions used to state the properties\<close>

text \<open>The valid values the scan of \<open>ReplicationSlotsComputeRequiredXmin\<close> meets, in order.\<close>

definition valid_effective_xmins :: "ReplicationSlot list \<Rightarrow> TransactionId list" where
  "valid_effective_xmins slots =
     map effective_xmin
       (filter (\<lambda>s. in_use s \<and> TransactionIdIsValid (effective_xmin s)) slots)"

definition valid_effective_catalog_xmins :: "ReplicationSlot list \<Rightarrow> TransactionId list" where
  "valid_effective_catalog_xmins slots =
     map effective_catalog_xmin
       (filter (\<lambda>s. in_use s \<and> TransactionIdIsValid (effective_catalog_xmin s)) slots)"

text \<open>A comparator is a strict total order on the values of \<open>xs\<close>.\<close>

definition strict_total_on :: "('a \<Rightarrow> 'a \<Rightarrow> bool) \<Rightarrow> 'a list \<Rightarrow> bool" where
  "strict_total_on prec xs =
     ((\<forall>x\<in>set xs. \<not> prec x x) \<and>
      (\<forall>x\<in>set xs. \<forall>y\<in>set xs. \<forall>z\<in>set xs. prec x y \<longrightarrow> prec y z \<longrightarrow> prec x z) \<and>
      (\<forall>x\<in>set xs. \<forall>y\<in>set xs. x = y \<or> prec x y \<or> prec y x))"

text \<open>
  \<open>r\<close> is the minimum of \<open>xs\<close> under \<open>prec\<close>: one of the values, preceding every other
  one; \<open>InvalidTransactionId\<close> when there is no value.
\<close>

definition minimum_under ::
  "(TransactionId \<Rightarrow> TransactionId \<Rightarrow> bool) \<Rightarrow> TransactionId list \<Rightarrow> TransactionId \<Rightarrow> bool" where
  "minimum_under prec xs r =
     (if xs = [] then r = InvalidTransactionId
      else r \<in> set xs \<and> (\<forall>x\<in>set xs. x = r \<or> prec r x))"

text \<open>One running minimum of the scan, over the values alone.\<close>

fun running_min ::
  "(TransactionId \<Rightarrow> TransactionId \<Rightarrow> bool) \<Rightarrow> TransactionId list \<Rightarrow> TransactionId \<Rightarrow> TransactionId" where
  "running_min prec [] agg = agg"
| "running_min prec (x # xs) agg =
     running_min prec xs
       (if TransactionIdIsValid x \<and> (\<not> TransactionIdIsValid agg \<or> prec x agg) then x else agg)"

text \<open>A slot counts for \<open>ReplicationSlotsComputeRequiredLSN\<close>: it passes both tests of the loop.\<close>

definition counts_for_lsn :: "ServerMode \<Rightarrow> ReplicationSlot \<Rightarrow> bool" where
  "counts_for_lsn mode s =
     (in_use s \<and>
      \<not> (mode \<noteq> PRIMARY_MODE \<and> mode \<noteq> PENDING_MODE \<and> database (data s) = InvalidOid))"

text \<open>The three tests of the restorer on a record that was read.\<close>

definition record_verifies :: "env \<Rightarrow> ReplicationSlotOnDisk \<Rightarrow> bool" where
  "record_verifies cfg cp =
     (comp_crc32c cfg (slotdata cp) = checksum cp \<and> magic cp = SLOT_MAGIC cfg \<and>
      length_field cp = ReplicationSlotOnDiskDynamicSize cfg)"

text \<open>
  The slot as \<open>SaveSlotToPath\<close> sees it under the spinlock: when it copies it into the
  record for \<open>state.backup\<close>, when it copies it for \<open>state.tmp\<close>, and at its last
  test, given the slot \<open>s\<close> at the call and what its owner does in between.
\<close>

definition slot_at_backup_copy ::
  "(nat \<Rightarrow> ReplicationSlot \<Rightarrow> ReplicationSlot) \<Rightarrow> ReplicationSlot \<Rightarrow> ReplicationSlot" where
  "slot_at_backup_copy other s = other 0 (s\<lparr>just_dirtied := False\<rparr>)"

definition slot_at_state_copy ::
  "(nat \<Rightarrow> ReplicationSlot \<Rightarrow> ReplicationSlot) \<Rightarrow> ReplicationSlot \<Rightarrow> ReplicationSlot" where
  "slot_at_state_copy other s = other 1 (slot_at_backup_copy other s)"

definition slot_at_last_test ::
  "(nat \<Rightarrow> ReplicationSlot \<Rightarrow> ReplicationSlot) \<Rightarrow> ReplicationSlot \<Rightarrow> ReplicationSlot" where
  "slot_at_last_test other s = other 2 (slot_at_state_copy other s)"

text \<open>
  A save of slot \<open>i\<close> from state \<open>st\<close> with outcome \<open>r\<close> succeeded: there was
  something to write, the function returned, and it reported nothing.
\<close>

definition save_succeeded :: "backend \<Rightarrow> nat \<Rightarrow> unit outcome \<Rightarrow> bool" where
  "save_succeeded st i r =
     (dirty (replication_slots st ! i) \<and> fst r = Inr () \<and> server_log (snd r) = server_log st)"

text \<open>None of the system calls of a save into \<open>dir\<close> fails.\<close>

definition save_io_ok :: "env \<Rightarrow> string \<Rightarrow> bool" where
  "save_io_ok cfg dir =
     (\<not> io_fail cfg IO_OPEN dir ''state.backup'' \<and> \<not> io_fail cfg IO_WRITE dir ''state.backup'' \<and>
      \<not> io_fail cfg IO_FSYNC dir ''state.backup'' \<and> \<not> io_fail cfg IO_CLOSE dir ''state.backup'' \<and>
      \<not> io_fail cfg IO_OPEN dir ''state.tmp'' \<and> \<not> io_fail cfg IO_WRITE dir ''state.tmp'' \<and>
      \<not> io_fail cfg IO_FSYNC dir ''state.tmp'' \<and> \<not> io_fail cfg IO_CLOSE dir ''state.tmp'' \<and>
      \<not> io_fail cfg IO_RENAME dir ''state.tmp'' \<and> \<not> io_fail cfg IO_FSYNC_FNAME dir ''state'' \<and>
      \<not> io_fail cfg IO_FSYNC_FNAME dir [] \<and> \<not> io_fail cfg IO_FSYNC_FNAME [] [])"

text \<open>What \<open>ReplicationSlotMarkDirty\<close> does to the session's slot.\<close>

definition owner_marks_dirty :: "ReplicationSlot \<Rightarrow> ReplicationSlot" where
  "owner_marks_dirty s = s\<lparr>just_dirtied := True, dirty := True\<rparr>"

text \<open>The report with which \<open>RecoverReplSlotFile\<close> starts.\<close>

definition recover_warning :: report where
  "recover_warning = (WARNING, ERRCODE_UNSPECIFIED, ''recover the replication slot file'')"

subsection \<open>Concrete values for the examples\<close>

text \<open>An array entry as \<open>ReplicationSlotsShmemInit\<close> leaves it: all bytes zero.\<close>

definition zeroed_slot :: ReplicationSlot where
  "zeroed_slot =
     \<lparr>in_use = False, active = False, just_dirtied = False, dirty = False,
      effective_xmin = 0, effective_catalog_xmin = 0,
      data = \<lparr>name = [], database = 0, persistency = RS_PERSISTENT, isDummyStandby = False,
              xmin = 0, catalog_xmin = 0, restart_lsn = 0\<rparr>,
      candidate_catalog_xmin = 0, candidate_xmin_lsn = 0, candidate_restart_valid = 0,
      candidate_restart_lsn = 0\<rparr>"

text \<open>An entry in use: name, database, persistency and restart position.\<close>

definition slot_in_use ::
  "string \<Rightarrow> Oid \<Rightarrow> ReplicationSlotPersistency \<Rightarrow> XLogRecPtr \<Rightarrow> ReplicationSlot" where
  "slot_in_use n db pers lsn =
     zeroed_slot\<lparr>in_use := True,
                 data := (data zeroed_slot)\<lparr>name := n, database := db, persistency := pers,
                                            restart_lsn := lsn\<rparr>\<rparr>"

text \<open>
  The examples run with a stand-in for the checksum macro and with a comparison of
  transaction ids modelled from the spec (the comparison is cyclic: \<open>a\<close> precedes \<open>b\<close>
  when the difference \<open>a - b\<close>, read as a signed number, is negative). The theorems
  hold for every function in their place.
\<close>

definition example_crc :: "ReplicationSlotPersistentData \<Rightarrow> pg_crc32c" where
  "example_crc d = of_nat (length (name d)) + ucast (restart_lsn d) + 1"

definition cyclic_precedes :: "TransactionId \<Rightarrow> TransactionId \<Rightarrow> bool" where
  "cyclic_precedes a b = (sint (a - b) < 0)"

definition example_env :: env where
  "example_env =
     \<lparr>NAMEDATALEN = 64, SLOT_MAGIC = 0x1051CA1, ReplicationSlotOnDiskDynamicSize = 104,
      comp_crc32c = example_crc, TransactionIdPrecedes = cyclic_precedes,
      server_mode = PRIMARY_MODE, RecoveryInProgress = False,
      io_fail = (\<lambda>_ _ _. False), torn_write = (\<lambda>_ _. FileShort)\<rparr>"

definition example_backend :: "ReplicationSlot list \<Rightarrow> backend" where
  "example_backend slots =
     \<lparr>replication_slots = slots, MyReplicationSlot = None, pg_replslot = Map.empty,
      held_lwlocks = [], server_log = [],
      replication_slot_xmin = 0, replication_slot_catalog_xmin = 0,
      replication_slot_min_lsn = 0, replication_slot_max_lsn = 0,
      in_logical_decoding = False\<rparr>"

text \<open>
  A session that owns the dirty physical slot \<open>s1\<close>, whose directory exists and is
  empty; and a server at startup, its two array entries zeroed, over a given directory
  \<open>pg_replslot\<close>.
\<close>

definition dirty_slot :: ReplicationSlot where
  "dirty_slot = (slot_in_use ''s1'' 0 RS_PERSISTENT 0x1000)\<lparr>active := True, dirty := True\<rparr>"

definition backend_before_save :: backend where
  "backend_before_save =
     (example_backend [dirty_slot, zeroed_slot])
       \<lparr>MyReplicationSlot := Some 0, pg_replslot := [''s1'' \<mapsto> Map.empty]\<rparr>"

definition backend_at_startup :: "(string \<rightharpoonup> (string \<rightharpoonup> slot_file)) \<Rightarrow> backend" where
  "backend_at_startup disk = (example_backend [zeroed_slot, zeroed_slot])\<lparr>pg_replslot := disk\<rparr>"

text \<open>The record a save of \<open>s1\<close> writes, and the same record with a wrong checksum.\<close>

definition good_record :: ReplicationSlotOnDisk where
  "good_record = build_record example_env (slot_in_use ''s1'' 0 RS_PERSISTENT 0x1000)"

definition bad_record :: ReplicationSlotOnDisk where
  "bad_record = good_record\<lparr>checksum := 0\<rparr>"

text \<open>A session whose current slot is the active ephemeral slot \<open>e1\<close>.\<close>

definition backend_with_ephemeral :: backend where
  "backend_with_ephemeral =
     (example_backend [(slot_in_use ''e1'' 0 RS_EPHEMERAL 0)\<lparr>active := True\<rparr>, zeroed_slot])
       \<lparr>MyReplicationSlot := Some 0, pg_replslot := [''e1'' \<mapsto> Map.empty]\<rparr>"

text \<open>
  Three slot directories whose \<open>state\<close> has a wrong checksum: with a good backup and
  a left-over \<open>state.tmp\<close>, with a good backup alone, and with the backup of an
  ephemeral slot.
\<close>

definition disk_with_tmp :: "string \<rightharpoonup> (string \<rightharpoonup> slot_file)" where
  "disk_with_tmp =
     [''s1'' \<mapsto> [''state'' \<mapsto> FileRecord bad_record, ''state.backup'' \<mapsto> FileRecord good_record,
                ''state.tmp'' \<mapsto> FileShort]]"

definition disk_bad_primary :: "string \<rightharpoonup> (string \<rightharpoonup> slot_file)" where
  "disk_bad_primary =
     [''s1'' \<mapsto> [''state'' \<mapsto> FileRecord bad_record, ''state.backup'' \<mapsto> FileRecord good_record]]"

definition disk_ephemeral_backup :: "string \<rightharpoonup> (string \<rightharpoonup> slot_file)" where
  "disk_ephemeral_backup =
     [''e1'' \<mapsto> [''state'' \<mapsto> FileRecord bad_record,
                ''state.backup'' \<mapsto> FileRecord (build_record example_env (slot_in_use ''e1'' 0 RS_EPHEMERAL 0))]]"

section \<open>Properties\<close>

subsection \<open>Basic facts\<close>

lemma LWLock_pair: "LWLockRelease l (LWLockAcquire l m st) = st"
  by (simp add: LWLockRelease_def LWLockAcquire_def)

lemma name_chars_ok_iff: "name_chars_ok n = (\<forall>c\<in>set n. slot_name_char c)"
  by (induction n) auto

subsection \<open>ReplicationSlotFind and the name check\<close>

text \<open>
  Claim C10. \<open>ReplicationSlotFind\<close> validates the name at \<open>ERROR\<close> before it scans:
  for a name that is NULL, empty, of length at least \<open>NAMEDATALEN\<close>, or with a character
  outside the grammar, it raises (\<open>ERRCODE_NAME_TOO_LONG\<close> for a non-empty name that
  is too long, \<open>ERRCODE_INVALID_NAME\<close> otherwise) instead of returning false; and
  whatever the name, it leaves the state, so every slot entry, as it found it.
\<close>

theorem ReplicationSlotFind_rejects_invalid_name:
  "snd (ReplicationSlotFind cfg nm st) = st \<and>
   ((nm = None \<or>
     (\<exists>n. nm = Some n \<and>
          (n = [] \<or> length n \<ge> NAMEDATALEN cfg \<or> (\<exists>c\<in>set n. \<not> slot_name_char c)))) \<longrightarrow>
    (\<exists>msg. fst (ReplicationSlotFind cfg nm st) =
        Inl (ERROR,
             (if (\<exists>n. nm = Some n \<and> n \<noteq> [] \<and> length n \<ge> NAMEDATALEN cfg)
              then ERRCODE_NAME_TOO_LONG else ERRCODE_INVALID_NAME),
             msg)))"
  by (auto simp: ReplicationSlotFind_def ReplicationSlotValidateName_def report_false_def
      ereport_def LWLock_pair Let_def name_chars_ok_iff split: option.splits)

text \<open>An upper-case letter is outside the grammar: looking up \<open>Slot1\<close> raises.\<close>

theorem ReplicationSlotFind_rejects_invalid_name_witness:
  "(\<exists>c\<in>set ''Slot1''. \<not> slot_name_char c) \<and>
   snd (ReplicationSlotFind example_env (Some ''Slot1'')
          (example_backend [slot_in_use ''s1'' 0 RS_PERSISTENT 0]))
     = example_backend [slot_in_use ''s1'' 0 RS_PERSISTENT 0] \<and>
   (\<exists>msg. fst (ReplicationSlotFind example_env (Some ''Slot1'')
                 (example_backend [slot_in_use ''s1'' 0 RS_PERSISTENT 0]))
          = Inl (ERROR, ERRCODE_INVALID_NAME, msg))"
proof -
  have h: "\<exists>c\<in>set ''Slot1''. \<not> slot_name_char c"
    by (simp add: slot_name_char_def)
  show ?thesis
    using h ReplicationSlotFind_rejects_invalid_name
      [of example_env "Some ''Slot1''" "example_backend [slot_in_use ''s1'' 0 RS_PERSISTENT 0]"]
    by (simp add: example_env_def)
qed

subsection \<open>The required xmin\<close>

lemma xmin_scan_running:
  "xmin_scan prec ss (a, c) =
     (running_min prec (valid_effective_xmins ss) a,
      running_min prec (valid_effective_catalog_xmins ss) c)"
  by (induction ss arbitrary: a c)
     (simp_all add: valid_effective_xmins_def valid_effective_catalog_xmins_def)

lemma running_min_least:
  assumes "TransactionIdIsValid a" "\<forall>x\<in>set xs. TransactionIdIsValid x"
    and "strict_total_on prec (a # xs)"
  shows "running_min prec xs a \<in> set (a # xs) \<and>
         (\<forall>y\<in>set (a # xs). y = running_min prec xs a \<or> prec (running_min prec xs a) y)"
  using assms
proof (induction xs arbitrary: a)
  case Nil
  then show ?case by simp
next
  case (Cons x xs)
  define a' where "a' = (if prec x a then x else a)"
  define r where "r = running_min prec xs a'"
  have step: "running_min prec (x # xs) a = r"
    using Cons.prems by (simp add: a'_def r_def)
  have v: "TransactionIdIsValid a'" using Cons.prems by (simp add: a'_def)
  have a'in: "a' \<in> set (a # x # xs)" by (simp add: a'_def)
  have sub: "set (a' # xs) \<subseteq> set (a # x # xs)" using a'in by auto
  have irr: "\<And>u. u \<in> set (a # x # xs) \<Longrightarrow> \<not> prec u u"
    and trans: "\<And>u v w. u \<in> set (a # x # xs) \<Longrightarrow> v \<in> set (a # x # xs) \<Longrightarrow>
        w \<in> set (a # x # xs) \<Longrightarrow> prec u v \<Longrightarrow> prec v w \<Longrightarrow> prec u w"
    and total: "\<And>u v. u \<in> set (a # x # xs) \<Longrightarrow> v \<in> set (a # x # xs) \<Longrightarrow>
        u = v \<or> prec u v \<or> prec v u"
    using Cons.prems(3) unfolding strict_total_on_def by blast+
  have tot: "strict_total_on prec (a' # xs)"
    unfolding strict_total_on_def
  proof (intro conjI ballI impI)
    fix u assume "u \<in> set (a' # xs)" then show "\<not> prec u u" using irr sub by blast
  next
    fix u v w assume "u \<in> set (a' # xs)" "v \<in> set (a' # xs)" "w \<in> set (a' # xs)"
      "prec u v" "prec v w"
    then show "prec u w" using trans[of u v w] sub by blast
  next
    fix u v assume "u \<in> set (a' # xs)" "v \<in> set (a' # xs)"
    then show "u = v \<or> prec u v \<or> prec v u" using total[of u v] sub by blast
  qed
  have IH: "r \<in> set (a' # xs) \<and> (\<forall>y\<in>set (a' # xs). y = r \<or> prec r y)"
    unfolding r_def using Cons.IH[OF v _ tot] Cons.prems(2) by simp
  have rin: "r \<in> set (a # x # xs)" using IH sub by blast
  have ra': "a' = r \<or> prec r a'" using IH by simp
  have aa: "a = a' \<or> prec a' a"
    using total[of x a] by (auto simp: a'_def)
  have xa: "x = a' \<or> prec a' x"
    using total[of x a] by (auto simp: a'_def)
  have "y = r \<or> prec r y" if y: "y \<in> set (a # x # xs)" for y
  proof (cases "y \<in> set xs")
    case True
    then show ?thesis using IH by simp
  next
    case False
    then have "y = a \<or> y = x" using y by auto
    then have ya: "y = a' \<or> prec a' y" using aa xa by blast
    show ?thesis
    proof (cases "a' = r")
      case True
      then show ?thesis using ya by blast
    next
      case False
      then have p: "prec r a'" using ra' by blast
      show ?thesis
      proof (cases "y = a'")
        case True
        then show ?thesis using p by blast
      next
        case False
        then have "prec a' y" using ya by blast
        then show ?thesis using trans[OF rin a'in y p] by blast
      qed
    qed
  qed
  then show ?case using rin step by simp
qed

lemma running_min_minimum:
  assumes "\<forall>x\<in>set xs. TransactionIdIsValid x" "strict_total_on prec xs"
  shows "minimum_under prec xs (running_min prec xs InvalidTransactionId)"
proof (cases xs)
  case Nil
  then show ?thesis by (simp add: minimum_under_def)
next
  case (Cons x xs')
  have "running_min prec xs InvalidTransactionId = running_min prec xs' x"
    using assms(1) Cons by (simp add: TransactionIdIsValid_def)
  moreover have "running_min prec xs' x \<in> set (x # xs') \<and>
         (\<forall>y\<in>set (x # xs'). y = running_min prec xs' x \<or> prec (running_min prec xs' x) y)"
    using running_min_least[of x xs' prec] assms Cons by simp
  ultimately show ?thesis using Cons by (simp add: minimum_under_def)
qed

lemma valid_xmins_valid: "\<forall>x\<in>set (valid_effective_xmins ss). TransactionIdIsValid x"
  by (auto simp: valid_effective_xmins_def)

lemma valid_catalog_xmins_valid: "\<forall>x\<in>set (valid_effective_catalog_xmins ss). TransactionIdIsValid x"
  by (auto simp: valid_effective_catalog_xmins_def)

text \<open>
  Claim C3. \<open>ReplicationSlotsComputeRequiredXmin\<close> changes exactly the two published
  values. The first is the minimum, under the transaction-id comparator, of
  \<open>effective_xmin\<close> over the slots in use whose \<open>effective_xmin\<close> is valid, and
  \<open>InvalidTransactionId\<close> when there is none; the second is the same for
  \<open>effective_catalog_xmin\<close>. The comparator is any function that orders the values
  present strictly and totally, as the cyclic comparison does on values less than half
  the id space apart.
\<close>

theorem ComputeRequiredXmin_publishes_minima:
  assumes "strict_total_on (TransactionIdPrecedes cfg)
             (valid_effective_xmins (replication_slots st))"
    and "strict_total_on (TransactionIdPrecedes cfg)
             (valid_effective_catalog_xmins (replication_slots st))"
  shows "\<exists>x cx. ReplicationSlotsComputeRequiredXmin cfg already_locked st =
            st\<lparr>replication_slot_xmin := x, replication_slot_catalog_xmin := cx\<rparr> \<and>
          minimum_under (TransactionIdPrecedes cfg)
            (valid_effective_xmins (replication_slots st)) x \<and>
          minimum_under (TransactionIdPrecedes cfg)
            (valid_effective_catalog_xmins (replication_slots st)) cx"
proof -
  let ?p = "TransactionIdPrecedes cfg"
  let ?ss = "replication_slots st"
  have eq: "ReplicationSlotsComputeRequiredXmin cfg already_locked st =
     st\<lparr>replication_slot_xmin :=
          running_min ?p (valid_effective_xmins ?ss) InvalidTransactionId,
        replication_slot_catalog_xmin :=
          running_min ?p (valid_effective_catalog_xmins ?ss) InvalidTransactionId\<rparr>"
    by (simp add: ReplicationSlotsComputeRequiredXmin_def Let_def xmin_scan_running
        ProcArraySetReplicationSlotXmin_def LWLockAcquire_def LWLockRelease_def)
  show ?thesis
    using eq running_min_minimum[OF valid_xmins_valid assms(1)]
      running_min_minimum[OF valid_catalog_xmins_valid assms(2)] by blast
qed

text \<open>
  Three entries: one in use with xmin 7, a free one (skipped although its field holds 3),
  one in use with xmin 5 and catalog xmin 9. The published values are 5 and 9.
\<close>

theorem ComputeRequiredXmin_publishes_minima_witness:
  "strict_total_on (TransactionIdPrecedes example_env)
     (valid_effective_xmins (replication_slots (example_backend
        [(slot_in_use ''a'' 0 RS_PERSISTENT 0)\<lparr>effective_xmin := 7\<rparr>,
         zeroed_slot\<lparr>effective_xmin := 3\<rparr>,
         (slot_in_use ''b'' 1 RS_PERSISTENT 0)\<lparr>effective_xmin := 5,
                                                effective_catalog_xmin := 9\<rparr>]))) \<and>
   strict_total_on (TransactionIdPrecedes example_env)
     (valid_effective_catalog_xmins (replication_slots (example_backend
        [(slot_in_use ''a'' 0 RS_PERSISTENT 0)\<lparr>effective_xmin := 7\<rparr>,
         zeroed_slot\<lparr>effective_xmin := 3\<rparr>,
         (slot_in_use ''b'' 1 RS_PERSISTENT 0)\<lparr>effective_xmin := 5,
                                                effective_catalog_xmin := 9\<rparr>]))) \<and>
   ReplicationSlotsComputeRequiredXmin example_env False (example_backend
        [(slot_in_use ''a'' 0 RS_PERSISTENT 0)\<lparr>effective_xmin := 7\<rparr>,
         zeroed_slot\<lparr>effective_xmin := 3\<rparr>,
         (slot_in_use ''b'' 1 RS_PERSISTENT 0)\<lparr>effective_xmin := 5,
                                                effective_catalog_xmin := 9\<rparr>])
     = (example_backend
        [(slot_in_use ''a'' 0 RS_PERSISTENT 0)\<lparr>effective_xmin := 7\<rparr>,
         zeroed_slot\<lparr>effective_xmin := 3\<rparr>,
         (slot_in_use ''b'' 1 RS_PERSISTENT 0)\<lparr>effective_xmin := 5,
                                                effective_catalog_xmin := 9\<rparr>])
       \<lparr>replication_slot_xmin := 5, replication_slot_catalog_xmin := 9\<rparr>"
proof -
  let ?st = "example_backend
        [(slot_in_use ''a'' 0 RS_PERSISTENT 0)\<lparr>effective_xmin := 7\<rparr>,
         zeroed_slot\<lparr>effective_xmin := 3\<rparr>,
         (slot_in_use ''b'' 1 RS_PERSISTENT 0)\<lparr>effective_xmin := 5,
                                                effective_catalog_xmin := 9\<rparr>]"
  have xs: "valid_effective_xmins (replication_slots ?st) = [7, 5]"
    by (simp add: valid_effective_xmins_def example_backend_def slot_in_use_def
        zeroed_slot_def TransactionIdIsValid_def InvalidTransactionId_def)
  have cxs: "valid_effective_catalog_xmins (replication_slots ?st) = [9]"
    by (simp add: valid_effective_catalog_xmins_def example_backend_def slot_in_use_def
        zeroed_slot_def TransactionIdIsValid_def InvalidTransactionId_def)
  have p: "TransactionIdPrecedes example_env = cyclic_precedes"
    by (simp add: example_env_def)
  have h1: "strict_total_on (TransactionIdPrecedes example_env)
              (valid_effective_xmins (replication_slots ?st))"
    unfolding xs p by (simp add: strict_total_on_def cyclic_precedes_def)
  have h2: "strict_total_on (TransactionIdPrecedes example_env)
              (valid_effective_catalog_xmins (replication_slots ?st))"
    unfolding cxs p by (simp add: strict_total_on_def cyclic_precedes_def)
  obtain x cx where r:
    "ReplicationSlotsComputeRequiredXmin example_env False ?st =
       ?st\<lparr>replication_slot_xmin := x, replication_slot_catalog_xmin := cx\<rparr>"
    "minimum_under cyclic_precedes [7, 5] x" "minimum_under cyclic_precedes [9] cx"
    using ComputeRequiredXmin_publishes_minima [OF h1 h2, of False] unfolding xs cxs p
    by blast
  have "x = 5" using r(2) by (auto simp: minimum_under_def cyclic_precedes_def)
  moreover have "cx = 9" using r(3) by (simp add: minimum_under_def)
  ultimately show ?thesis using h1 h2 r(1) by simp
qed

text \<open>
  The cyclic comparison is such an order on values that lie, counted from some
  \<open>lo\<close>, within half of the id space.
\<close>

lemma sint_diff_small:
  fixes u v :: "64 word"
  assumes "u < 2 ^ 63" "v < 2 ^ 63"
  shows "(sint (u - v) < 0) = (u < v)"
proof -
  have u: "uint u < 2 ^ 63" and v: "uint v < 2 ^ 63"
    using assms by (simp_all add: word_less_alt)
  have u0: "0 \<le> uint u" and v0: "0 \<le> uint v" by simp_all
  have "sint (u - v) = signed_take_bit 63 (uint u - uint v)"
    by (simp add: sint_uint uint_word_ariths signed_take_bit_eq_take_bit_shift take_bit_eq_mod
        mod_add_left_eq)
  also have "\<dots> = uint u - uint v"
  proof (rule signed_take_bit_int_eq_self)
    have u': "uint u < 9223372036854775808" and v': "uint v < 9223372036854775808"
      using u v by simp_all
    have lower: "- 9223372036854775808 \<le> a - b"
      if "0 \<le> a" "b < 9223372036854775808" for a b :: int
      using that by linarith
    have upper: "a - b < 9223372036854775808"
      if "0 \<le> b" "a < 9223372036854775808" for a b :: int
      using that by linarith
    show "- (2 ^ 63) \<le> uint u - uint v" using lower[OF u0 v'] by simp
    show "uint u - uint v < 2 ^ 63" using upper[OF v0 u'] by simp
  qed
  finally show ?thesis by (simp add: word_less_alt)
qed

lemma cyclic_precedes_window:
  assumes "\<forall>x\<in>set xs. x - lo < 2 ^ 63"
  shows "strict_total_on cyclic_precedes xs"
proof -
  have eq: "cyclic_precedes x y = (x - lo < y - lo)" if "x \<in> set xs" "y \<in> set xs" for x y
  proof -
    have "x - y = (x - lo) - (y - lo)" by simp
    then show ?thesis
      unfolding cyclic_precedes_def using sint_diff_small[of "x - lo" "y - lo"] assms that
      by simp
  qed
  show ?thesis
    unfolding strict_total_on_def
  proof (intro conjI ballI impI)
    fix x assume "x \<in> set xs"
    then show "\<not> cyclic_precedes x x" by (simp add: eq)
  next
    fix x y z assume "x \<in> set xs" "y \<in> set xs" "z \<in> set xs"
      "cyclic_precedes x y" "cyclic_precedes y z"
    then show "cyclic_precedes x z" by (simp add: eq)
  next
    fix x y assume "x \<in> set xs" "y \<in> set xs"
    moreover have "x - lo = y - lo \<Longrightarrow> x = y" by simp
    ultimately show "x = y \<or> cyclic_precedes x y \<or> cyclic_precedes y x"
      using linorder_less_linear[of "x - lo" "y - lo"] by (auto simp: eq)
  qed
qed

subsection \<open>The required restart positions\<close>

lemma lsn_scan_used:
  "snd (snd (lsn_scan mode ss (mn, mx, u))) = (u \<or> (\<exists>s\<in>set ss. counts_for_lsn mode s))"
  by (induction ss arbitrary: mn mx u) (auto simp: counts_for_lsn_def Let_def)

text \<open>
  Claim C9, as stated, at an empty slot array (\<open>max_replication_slots = 0\<close>): the
  function returns at its first test, and the caller's struct comes back as it went in,
  here still saying that a slot is in use although there is no slot at all.
\<close>

theorem ComputeRequiredLSN_disabled_leaves_state_out:
  "ReplicationSlotsComputeRequiredLSN example_env
     (Some \<lparr>min_required = 7, max_required = 9, exist_in_use = True\<rparr>) (example_backend [])
   = (Some \<lparr>min_required = 7, max_required = 9, exist_in_use = True\<rparr>, example_backend [])"
  by (simp add: ReplicationSlotsComputeRequiredLSN_def max_replication_slots_def
      example_backend_def)

text \<open>
  Claim C9, amended. For every call of \<open>ReplicationSlotsComputeRequiredLSN\<close> with a
  non-null \<open>repl_slt_state\<close> and \<open>max_replication_slots > 0\<close>, all three fields are
  filled, whatever they held before: \<open>min_required\<close> and \<open>max_required\<close> with the
  values published to the WAL module, \<open>exist_in_use\<close> with whether some slot counted
  in the scan.
\<close>

theorem ComputeRequiredLSN_fills_state_out:
  assumes "0 < max_replication_slots st"
  shows "\<exists>r st'. (\<forall>s. ReplicationSlotsComputeRequiredLSN cfg (Some s) st = (Some r, st')) \<and>
           min_required r = replication_slot_min_lsn st' \<and>
           max_required r = replication_slot_max_lsn st' \<and>
           exist_in_use r =
             (\<exists>sl\<in>set (replication_slots st). counts_for_lsn (server_mode cfg) sl)"
proof -
  obtain mn mx u where r:
    "lsn_scan (server_mode cfg) (replication_slots st) (InvalidXLogRecPtr, InvalidXLogRecPtr, False)
       = (mn, mx, u)"
    by (cases "lsn_scan (server_mode cfg) (replication_slots st)
                 (InvalidXLogRecPtr, InvalidXLogRecPtr, False)") auto
  have u: "u = (\<exists>sl\<in>set (replication_slots st). counts_for_lsn (server_mode cfg) sl)"
    using lsn_scan_used[of "server_mode cfg" "replication_slots st"
        InvalidXLogRecPtr InvalidXLogRecPtr False] r by simp
  have "\<forall>s. ReplicationSlotsComputeRequiredLSN cfg (Some s) st =
          (Some \<lparr>min_required = mn, max_required = mx, exist_in_use = u\<rparr>,
           st\<lparr>replication_slot_min_lsn := mn, replication_slot_max_lsn := mx\<rparr>)"
    using assms r
    by (simp add: ReplicationSlotsComputeRequiredLSN_def Let_def LWLockAcquire_def
        LWLockRelease_def)
  then show ?thesis using u by auto
qed

text \<open>Two entries, one in use at position 100: the struct is filled with 100, 100, true.\<close>

theorem ComputeRequiredLSN_fills_state_out_witness:
  "0 < max_replication_slots
         (example_backend [slot_in_use ''a'' 0 RS_PERSISTENT 100, zeroed_slot]) \<and>
   (\<forall>s. fst (ReplicationSlotsComputeRequiredLSN example_env (Some s)
              (example_backend [slot_in_use ''a'' 0 RS_PERSISTENT 100, zeroed_slot]))
         = Some \<lparr>min_required = 100, max_required = 100, exist_in_use = True\<rparr>)"
proof -
  have h: "0 < max_replication_slots
                 (example_backend [slot_in_use ''a'' 0 RS_PERSISTENT 100, zeroed_slot])"
    by (simp add: max_replication_slots_def example_backend_def)
  have c: "\<And>s. fst (ReplicationSlotsComputeRequiredLSN example_env (Some s)
              (example_backend [slot_in_use ''a'' 0 RS_PERSISTENT 100, zeroed_slot]))
         = Some \<lparr>min_required = 100, max_required = 100, exist_in_use = True\<rparr>"
    by (simp add: ReplicationSlotsComputeRequiredLSN_def max_replication_slots_def
      example_backend_def slot_in_use_def zeroed_slot_def InvalidOid_def InvalidXLogRecPtr_def
      XLByteEQ_def XLByteLT_def example_env_def LWLockAcquire_def LWLockRelease_def Let_def)
  show ?thesis using h ComputeRequiredLSN_fills_state_out [OF h, of example_env] c by simp
qed

text \<open>Without a logical slot in use the result is \<open>InvalidXLogRecPtr\<close>.\<close>

lemma logical_lsn_scan_none:
  "\<forall>s\<in>set ss. \<not> (in_use s \<and> database (data s) \<noteq> InvalidOid) \<Longrightarrow>
   logical_lsn_scan ss result = result"
  by (induction ss arbitrary: result) auto

lemma ComputeLogicalRestartLSN_none:
  "\<forall>s\<in>set (replication_slots st). \<not> (in_use s \<and> database (data s) \<noteq> InvalidOid) \<Longrightarrow>
   ReplicationSlotsComputeLogicalRestartLSN st = InvalidXLogRecPtr"
  by (simp add: ReplicationSlotsComputeLogicalRestartLSN_def logical_lsn_scan_none)

text \<open>
  Claim C4 at two logical slots in use, the first at position 100, the second with an
  invalid position: \<open>ReplicationSlotsComputeLogicalRestartLSN\<close> returns
  \<open>InvalidXLogRecPtr\<close>, the invalid position having replaced the valid one.
\<close>

theorem ComputeLogicalRestartLSN_invalid_replaces_valid:
  "ReplicationSlotsComputeLogicalRestartLSN
     (example_backend [slot_in_use ''a'' 1 RS_PERSISTENT 100, slot_in_use ''b'' 1 RS_PERSISTENT 0])
   = InvalidXLogRecPtr"
  by (simp add: ReplicationSlotsComputeLogicalRestartLSN_def max_replication_slots_def
      example_backend_def slot_in_use_def zeroed_slot_def InvalidOid_def InvalidXLogRecPtr_def
      XLByteEQ_def XLByteLT_def)

text \<open>
  The same two slots in the other order give 100, and the minimum that
  \<open>ReplicationSlotsComputeRequiredLSN\<close> publishes for them is 100 in either order:
  the result above is below it, against the note in the function's comment that it
  returns a value not less than the one of \<open>ReplicationSlotsComputeRequiredLSN\<close>.
\<close>

lemma ComputeLogicalRestartLSN_other_order:
  "ReplicationSlotsComputeLogicalRestartLSN
     (example_backend [slot_in_use ''b'' 1 RS_PERSISTENT 0, slot_in_use ''a'' 1 RS_PERSISTENT 100])
   = 100"
  by (simp add: ReplicationSlotsComputeLogicalRestartLSN_def max_replication_slots_def
      example_backend_def slot_in_use_def zeroed_slot_def InvalidOid_def InvalidXLogRecPtr_def
      XLByteEQ_def XLByteLT_def)

lemma ComputeRequiredLSN_same_slots:
  "replication_slot_min_lsn (snd (ReplicationSlotsComputeRequiredLSN example_env None
     (example_backend [slot_in_use ''a'' 1 RS_PERSISTENT 100, slot_in_use ''b'' 1 RS_PERSISTENT 0])))
   = 100"
  by (simp add: ReplicationSlotsComputeRequiredLSN_def max_replication_slots_def
      example_backend_def slot_in_use_def zeroed_slot_def InvalidOid_def InvalidXLogRecPtr_def
      XLByteEQ_def XLByteLT_def example_env_def LWLockAcquire_def LWLockRelease_def Let_def)


subsection \<open>Saving a slot\<close>

lemma write_state_file_log:
  "\<exists>rs. server_log (snd (write_state_file cfg i dir f lvl st)) = server_log st @ rs \<and>
        (fst (write_state_file cfg i dir f lvl st) = Inr False \<longrightarrow> rs \<noteq> [])"
  by (auto simp: write_state_file_def report_false_def ereport_def and_then_def close_file_def
      LWLockRelease_def set_file_def Let_def split: option.splits)

lemma write_state_file_ok:
  assumes "fst (write_state_file cfg i dir f lvl st) = Inr True"
    and "server_log (snd (write_state_file cfg i dir f lvl st)) = server_log st"
  shows "\<not> io_fail cfg IO_OPEN dir f \<and> \<not> io_fail cfg IO_WRITE dir f \<and>
         \<not> io_fail cfg IO_FSYNC dir f \<and> \<not> io_fail cfg IO_CLOSE dir f \<and> dir_exists st dir"
  using assms
  by (auto simp: write_state_file_def report_false_def ereport_def and_then_def close_file_def
      LWLockRelease_def set_file_def Let_def split: option.splits if_splits)

lemma write_state_file_eq:
  assumes "\<not> io_fail cfg IO_OPEN dir f" "\<not> io_fail cfg IO_WRITE dir f"
         "\<not> io_fail cfg IO_FSYNC dir f" "\<not> io_fail cfg IO_CLOSE dir f" "pg_replslot st dir = Some files"
  shows "write_state_file cfg i dir f lvl st =
           (Inr True, st\<lparr>pg_replslot := (pg_replslot st)(dir \<mapsto> files(f \<mapsto> FileRecord (build_record cfg (replication_slots st ! i))))\<rparr>)"
  using assms
  by (auto simp: write_state_file_def and_then_def close_file_def dir_exists_def file_at_def
      set_file_def Let_def split: option.splits)


lemma SaveSlotToPath_eq:
  assumes "i < length (replication_slots st)" "dirty (replication_slots st ! i)"
    "pg_replslot st dir = Some files" "save_io_ok cfg dir"
  shows "SaveSlotToPath cfg other i dir lvl st =
     (Inr (),
      st\<lparr>replication_slots := (replication_slots st)
            [i := (if \<not> just_dirtied (slot_at_last_test other (replication_slots st ! i))
                   then (slot_at_last_test other (replication_slots st ! i))\<lparr>dirty := False\<rparr>
                   else slot_at_last_test other (replication_slots st ! i))],
         pg_replslot := (pg_replslot st)(dir \<mapsto> files
            (''state.backup'' \<mapsto> FileRecord (build_record cfg (slot_at_backup_copy other (replication_slots st ! i))),
             ''state.tmp'' := None,
             ''state'' \<mapsto> FileRecord (build_record cfg (slot_at_state_copy other (replication_slots st ! i)))))\<rparr>)"
  using assms
  by (simp add: SaveSlotToPath_def Let_def save_io_ok_def write_state_file_eq and_then_def
      slot_update_def LWLockAcquire_def LWLockRelease_def fsync_fname_def set_file_def file_at_def
      slot_at_last_test_def slot_at_state_copy_def slot_at_backup_copy_def)

lemma SaveSlotToPath_success_io:
  assumes "save_succeeded st i (SaveSlotToPath cfg other i dir lvl st)"
  shows "dir_exists st dir \<and> save_io_ok cfg dir"
proof -
  let ?st1 = "LWLockAcquire (io_in_progress_lock i) LW_EXCLUSIVE
                (slot_update i (other 0) (slot_update i (\<lambda>s. s\<lparr>just_dirtied := False\<rparr>) st))"
  let ?w1 = "write_state_file cfg i dir ''state.backup'' lvl ?st1"
  let ?st2 = "slot_update i (other 1) (snd ?w1)"
  let ?w2 = "write_state_file cfg i dir ''state.tmp'' lvl ?st2"
  have d: "dirty (replication_slots st ! i)" and r: "fst (SaveSlotToPath cfg other i dir lvl st) = Inr ()"
    and l: "server_log (snd (SaveSlotToPath cfg other i dir lvl st)) = server_log st"
    using assms by (auto simp: save_succeeded_def)
  obtain rs1 where rs1: "server_log (snd ?w1) = server_log ?st1 @ rs1"
      "fst ?w1 = Inr False \<longrightarrow> rs1 \<noteq> []"
    using write_state_file_log[of cfg i dir "''state.backup''" lvl ?st1] by blast
  obtain rs2 where rs2: "server_log (snd ?w2) = server_log ?st2 @ rs2"
      "fst ?w2 = Inr False \<longrightarrow> rs2 \<noteq> []"
    using write_state_file_log[of cfg i dir "''state.tmp''" lvl ?st2] by blast
  have l1: "server_log ?st1 = server_log st" by (simp add: LWLockAcquire_def slot_update_def)
  have l2: "server_log ?st2 = server_log st @ rs1" using rs1 l1 by (simp add: slot_update_def)
  have w1: "fst ?w1 = Inr True \<and> rs1 = []"
    using d r l rs1 rs2 l1 l2
    by (cases "?w1"; cases "fst ?w1"; cases "?w2"; cases "fst ?w2")
       (auto simp: SaveSlotToPath_def Let_def and_then_def ereport_def fsync_fname_def
          slot_update_def LWLockRelease_def set_file_def split: if_splits option.splits)
  have w2: "fst ?w2 = Inr True \<and> rs2 = []"
    using d r l rs1 rs2 l1 l2 w1
    by (cases "?w1"; cases "?w2"; cases "fst ?w2")
       (auto simp: SaveSlotToPath_def Let_def and_then_def ereport_def fsync_fname_def
          slot_update_def LWLockRelease_def set_file_def split: if_splits option.splits)
  have ok1: "\<not> io_fail cfg IO_OPEN dir ''state.backup'' \<and> \<not> io_fail cfg IO_WRITE dir ''state.backup'' \<and>
         \<not> io_fail cfg IO_FSYNC dir ''state.backup'' \<and> \<not> io_fail cfg IO_CLOSE dir ''state.backup'' \<and>
         dir_exists ?st1 dir"
    using write_state_file_ok[of cfg i dir "''state.backup''" lvl ?st1] w1 rs1 by simp
  have ok2: "\<not> io_fail cfg IO_OPEN dir ''state.tmp'' \<and> \<not> io_fail cfg IO_WRITE dir ''state.tmp'' \<and>
         \<not> io_fail cfg IO_FSYNC dir ''state.tmp'' \<and> \<not> io_fail cfg IO_CLOSE dir ''state.tmp''"
    using write_state_file_ok[of cfg i dir "''state.tmp''" lvl ?st2] w2 rs2 by simp
  have rest: "\<not> io_fail cfg IO_RENAME dir ''state.tmp'' \<and> \<not> io_fail cfg IO_FSYNC_FNAME dir ''state'' \<and>
      \<not> io_fail cfg IO_FSYNC_FNAME dir [] \<and> \<not> io_fail cfg IO_FSYNC_FNAME [] []"
    using d r l rs1 rs2 l1 l2 w1 w2
    by (cases "?w1"; cases "?w2")
       (auto simp: SaveSlotToPath_def Let_def and_then_def ereport_def fsync_fname_def
          slot_update_def LWLockRelease_def set_file_def split: if_splits option.splits)
  have "dir_exists st dir" using ok1 by (simp add: dir_exists_def LWLockAcquire_def slot_update_def)
  then show ?thesis using ok1 ok2 rest by (simp add: save_io_ok_def)
qed

lemma SaveSlotToPath_not_dirty:
  assumes "\<not> dirty (replication_slots st ! i)"
  shows "SaveSlotToPath cfg other i dir lvl st =
           (Inr (), slot_update i (\<lambda>s. s\<lparr>just_dirtied := False\<rparr>) st)"
  using assms by (simp add: SaveSlotToPath_def)

lemma ReplicationSlotMarkDirty_owner:
  "MyReplicationSlot st = Some i \<Longrightarrow>
   ReplicationSlotMarkDirty st = slot_update i owner_marks_dirty st"
  by (simp add: ReplicationSlotMarkDirty_def slot_update_def owner_marks_dirty_def)

lemma build_record_verifies: "record_verifies cfg (build_record cfg s)"
  by (simp add: record_verifies_def build_record_def)

lemma owner_marks_dirty_last:
  assumes "k < 3"
  shows "just_dirtied (slot_at_last_test (\<lambda>j. if j = k then owner_marks_dirty else (\<lambda>s. s)) s) \<and>
         dirty (slot_at_last_test (\<lambda>j. if j = k then owner_marks_dirty else (\<lambda>s. s)) s)"
proof -
  have "k = 0 \<or> k = 1 \<or> k = 2" using assms by auto
  then show ?thesis
    by (auto simp: slot_at_last_test_def slot_at_state_copy_def slot_at_backup_copy_def
        owner_marks_dirty_def)
qed

text \<open>
  Claim C6. \<open>SaveSlotToPath\<close> on a slot whose \<open>dirty\<close> flag is unset returns at once:
  it only clears \<open>just_dirtied\<close>, and no file changes. After a successful save,
  \<open>dirty\<close> is set exactly when, at the last test under the spinlock, the slot has
  \<open>just_dirtied\<close> set (and \<open>dirty\<close> with it): it is cleared if and only if
  \<open>just_dirtied\<close> is still unset. In particular when the owner marks the slot dirty at
  any of the three points after the first read and leaves it so, \<open>dirty\<close> stays set.
\<close>

theorem SaveSlotToPath_dirty_flags:
  assumes "i < length (replication_slots st)"
  shows "(\<not> dirty (replication_slots st ! i) \<longrightarrow>
            SaveSlotToPath cfg other i dir lvl st =
              (Inr (), slot_update i (\<lambda>s. s\<lparr>just_dirtied := False\<rparr>) st) \<and>
            pg_replslot (snd (SaveSlotToPath cfg other i dir lvl st)) = pg_replslot st) \<and>
         (save_succeeded st i (SaveSlotToPath cfg other i dir lvl st) \<longrightarrow>
            dirty (replication_slots (snd (SaveSlotToPath cfg other i dir lvl st)) ! i) =
              (just_dirtied (slot_at_last_test other (replication_slots st ! i)) \<and>
               dirty (slot_at_last_test other (replication_slots st ! i)))) \<and>
         (save_succeeded st i (SaveSlotToPath cfg other i dir lvl st) \<and>
          (\<exists>k<3. other = (\<lambda>j. if j = k then owner_marks_dirty else (\<lambda>s. s))) \<longrightarrow>
            dirty (replication_slots (snd (SaveSlotToPath cfg other i dir lvl st)) ! i))"
proof -
  have a: "SaveSlotToPath cfg other i dir lvl st =
              (Inr (), slot_update i (\<lambda>s. s\<lparr>just_dirtied := False\<rparr>) st) \<and>
            pg_replslot (snd (SaveSlotToPath cfg other i dir lvl st)) = pg_replslot st"
    if "\<not> dirty (replication_slots st ! i)"
    using SaveSlotToPath_not_dirty[OF that, of cfg other dir lvl] by (simp add: slot_update_def)
  have b: "dirty (replication_slots (snd (SaveSlotToPath cfg other i dir lvl st)) ! i) =
              (just_dirtied (slot_at_last_test other (replication_slots st ! i)) \<and>
               dirty (slot_at_last_test other (replication_slots st ! i)))"
    if s: "save_succeeded st i (SaveSlotToPath cfg other i dir lvl st)"
  proof -
    have io: "dir_exists st dir" "save_io_ok cfg dir"
      using SaveSlotToPath_success_io[OF s] by blast+
    then obtain files where f: "pg_replslot st dir = Some files"
      by (auto simp: dir_exists_def)
    have d: "dirty (replication_slots st ! i)" using s by (simp add: save_succeeded_def)
    show ?thesis using assms by (simp add: SaveSlotToPath_eq[OF assms d f io(2)])
  qed
  have c: "dirty (replication_slots (snd (SaveSlotToPath cfg other i dir lvl st)) ! i)"
    if "save_succeeded st i (SaveSlotToPath cfg other i dir lvl st)"
      "\<exists>k<3. other = (\<lambda>j. if j = k then owner_marks_dirty else (\<lambda>s. s))"
    using b[OF that(1)] that(2) owner_marks_dirty_last by blast
  show ?thesis using a b c by blast
qed

text \<open>
  Claim C7. After a successful save, \<open>state.backup\<close> and \<open>state\<close> (written as
  \<open>state.tmp\<close> and renamed, so that no \<open>state.tmp\<close> is left) each hold a whole
  record with magic \<open>SLOT_MAGIC\<close>, version 1, length the size of the dynamic region,
  and the checksum of its own dynamic region and of nothing else: each passes the
  three tests of the restorer. The dynamic regions are the copies of the slot's
  persistent data taken for the two files.
\<close>

theorem SaveSlotToPath_writes_valid_records:
  assumes "i < length (replication_slots st)"
    and "save_succeeded st i (SaveSlotToPath cfg other i dir lvl st)"
  shows "\<exists>cb cs. file_at (snd (SaveSlotToPath cfg other i dir lvl st)) dir ''state.backup'' = Some (FileRecord cb) \<and>
           file_at (snd (SaveSlotToPath cfg other i dir lvl st)) dir ''state'' = Some (FileRecord cs) \<and>
           file_at (snd (SaveSlotToPath cfg other i dir lvl st)) dir ''state.tmp'' = None \<and>
           (\<forall>c\<in>{cb, cs}. magic c = SLOT_MAGIC cfg \<and> version c = 1 \<and>
               length_field c = ReplicationSlotOnDiskDynamicSize cfg \<and>
               checksum c = comp_crc32c cfg (slotdata c) \<and> record_verifies cfg c) \<and>
           slotdata cb = data (slot_at_backup_copy other (replication_slots st ! i)) \<and>
           slotdata cs = data (slot_at_state_copy other (replication_slots st ! i))"
proof -
  have io: "dir_exists st dir" "save_io_ok cfg dir"
    using SaveSlotToPath_success_io[OF assms(2)] by blast+
  then obtain files where f: "pg_replslot st dir = Some files"
    by (auto simp: dir_exists_def)
  have d: "dirty (replication_slots st ! i)" using assms(2) by (simp add: save_succeeded_def)
  show ?thesis
    by (simp add: SaveSlotToPath_eq[OF assms(1) d f io(2)] file_at_def build_record_def
        record_verifies_def)
qed

lemma example_save_eq:
  "SaveSlotToPath example_env other 0 ''s1'' lvl backend_before_save =
     (Inr (),
      backend_before_save\<lparr>replication_slots := (replication_slots backend_before_save)
            [0 := (if \<not> just_dirtied (slot_at_last_test other dirty_slot)
                   then (slot_at_last_test other dirty_slot)\<lparr>dirty := False\<rparr>
                   else slot_at_last_test other dirty_slot)],
         pg_replslot := (pg_replslot backend_before_save)(''s1'' \<mapsto> Map.empty
            (''state.backup'' \<mapsto> FileRecord (build_record example_env (slot_at_backup_copy other dirty_slot)),
             ''state.tmp'' := None,
             ''state'' \<mapsto> FileRecord (build_record example_env (slot_at_state_copy other dirty_slot))))\<rparr>)"
proof -
  have 1: "0 < length (replication_slots backend_before_save)"
    by (simp add: backend_before_save_def example_backend_def)
  have n: "replication_slots backend_before_save ! 0 = dirty_slot"
    by (simp add: backend_before_save_def example_backend_def)
  have 2: "dirty (replication_slots backend_before_save ! 0)"
    unfolding n by (simp add: dirty_slot_def)
  have 3: "pg_replslot backend_before_save ''s1'' = Some Map.empty"
    by (simp add: backend_before_save_def example_backend_def)
  have 4: "save_io_ok example_env ''s1''"
    by (simp add: save_io_ok_def example_env_def)
  show ?thesis using SaveSlotToPath_eq[OF 1 2 3 4, of other lvl] unfolding n .
qed

lemma example_save_succeeded:
  "save_succeeded backend_before_save 0
     (SaveSlotToPath example_env other 0 ''s1'' lvl backend_before_save)"
  unfolding example_save_eq
  by (simp add: save_succeeded_def backend_before_save_def example_backend_def dirty_slot_def)

text \<open>
  The slot \<open>s1\<close> is saved at checkpoint severity. When its owner marks it dirty
  between the two copies, the save succeeds and leaves \<open>dirty\<close> set; when nobody
  touches the slot, the save clears it.
\<close>

theorem SaveSlotToPath_dirty_flags_witness:
  "0 < length (replication_slots backend_before_save) \<and>
   save_succeeded backend_before_save 0
     (SaveSlotToPath example_env (\<lambda>j. if j = 1 then owner_marks_dirty else (\<lambda>s. s)) 0 ''s1'' LOG
        backend_before_save) \<and>
   dirty (replication_slots (snd
     (SaveSlotToPath example_env (\<lambda>j. if j = 1 then owner_marks_dirty else (\<lambda>s. s)) 0 ''s1'' LOG
        backend_before_save)) ! 0) \<and>
   save_succeeded backend_before_save 0
     (SaveSlotToPath example_env (\<lambda>j s. s) 0 ''s1'' LOG backend_before_save) \<and>
   \<not> dirty (replication_slots (snd
     (SaveSlotToPath example_env (\<lambda>j s. s) 0 ''s1'' LOG backend_before_save)) ! 0)"
proof -
  have h: "0 < length (replication_slots backend_before_save)"
    by (simp add: backend_before_save_def example_backend_def)
  have k: "\<exists>k<3::nat. (\<lambda>j. if j = 1 then owner_marks_dirty else (\<lambda>s. s)) =
                 (\<lambda>j. if j = k then owner_marks_dirty else (\<lambda>s. s))"
    by (intro exI[of _ 1]) simp
  have n: "replication_slots backend_before_save ! 0 = dirty_slot"
    by (simp add: backend_before_save_def example_backend_def)
  have q: "\<not> just_dirtied (slot_at_last_test (\<lambda>j s. s) (replication_slots backend_before_save ! 0))"
    by (simp add: slot_at_last_test_def slot_at_state_copy_def slot_at_backup_copy_def)
  note marked = SaveSlotToPath_dirty_flags [OF h, of example_env
        "\<lambda>j. if j = 1 then owner_marks_dirty else (\<lambda>s. s)" "''s1''" LOG,
        THEN conjunct2, THEN conjunct2, THEN mp, OF conjI, OF example_save_succeeded k]
  note alone = SaveSlotToPath_dirty_flags [OF h, of example_env "\<lambda>j s. s" "''s1''" LOG,
        THEN conjunct2, THEN conjunct1, THEN mp, OF example_save_succeeded]
  have clean: "\<not> dirty (replication_slots (snd
     (SaveSlotToPath example_env (\<lambda>j s. s) 0 ''s1'' LOG backend_before_save)) ! 0)"
    unfolding alone using q by (rule contrapos_nn) (erule conjunct1)
  show ?thesis
    by (intro conjI h example_save_succeeded marked clean)
qed

text \<open>The successful save of \<open>s1\<close> into its empty directory.\<close>

theorem SaveSlotToPath_writes_valid_records_witness:
  "0 < length (replication_slots backend_before_save) \<and>
   save_succeeded backend_before_save 0
     (SaveSlotToPath example_env (\<lambda>j s. s) 0 ''s1'' ERROR backend_before_save) \<and>
   (\<exists>cb cs.
      file_at (snd (SaveSlotToPath example_env (\<lambda>j s. s) 0 ''s1'' ERROR backend_before_save))
        ''s1'' ''state.backup'' = Some (FileRecord cb) \<and>
      file_at (snd (SaveSlotToPath example_env (\<lambda>j s. s) 0 ''s1'' ERROR backend_before_save))
        ''s1'' ''state'' = Some (FileRecord cs) \<and>
      file_at (snd (SaveSlotToPath example_env (\<lambda>j s. s) 0 ''s1'' ERROR backend_before_save))
        ''s1'' ''state.tmp'' = None \<and>
      (\<forall>c\<in>{cb, cs}. magic c = SLOT_MAGIC example_env \<and> version c = 1 \<and>
          length_field c = ReplicationSlotOnDiskDynamicSize example_env \<and>
          checksum c = comp_crc32c example_env (slotdata c) \<and> record_verifies example_env c) \<and>
      slotdata cb = data (slot_at_backup_copy (\<lambda>j s. s) (replication_slots backend_before_save ! 0)) \<and>
      slotdata cs = data (slot_at_state_copy (\<lambda>j s. s) (replication_slots backend_before_save ! 0)))"
proof -
  have h: "0 < length (replication_slots backend_before_save)"
    by (simp add: backend_before_save_def example_backend_def)
  show ?thesis
    by (intro conjI h example_save_succeeded
          SaveSlotToPath_writes_valid_records [OF h example_save_succeeded])
qed

text \<open>The two files it leaves hold the same record.\<close>

lemma example_saved_files:
  "pg_replslot (snd (SaveSlotToPath example_env (\<lambda>j s. s) 0 ''s1'' lvl backend_before_save)) =
     [''s1'' \<mapsto> [''state.backup'' \<mapsto> FileRecord good_record, ''state'' \<mapsto> FileRecord good_record]]"
  unfolding example_save_eq
  by (simp add: backend_before_save_def example_backend_def slot_at_backup_copy_def
      slot_at_state_copy_def good_record_def build_record_def dirty_slot_def slot_in_use_def
      fun_upd_twist)



subsection \<open>Restoring a slot\<close>

lemma set_file_absent: "file_at st d f = None \<Longrightarrow> set_file d f None st = st"
  by (auto simp: file_at_def set_file_def fun_upd_idem map_upd_triv split: option.splits)

lemma read_state_file_eq:
  assumes "file_at st d f = Some (FileRecord cp)" "\<not> io_fail cfg IO_OPEN d f"
    "\<not> io_fail cfg IO_FSYNC d f" "\<not> io_fail cfg IO_FSYNC_FNAME d f"
    "\<not> io_fail cfg IO_READ d f" "\<not> io_fail cfg IO_CLOSE d f"
  shows "read_state_file cfg d f st = (Inr cp, st)"
  using assms by (simp add: read_state_file_def and_then_def fsync_fname_def close_file_def)

lemma read_state_file_unreadable:
  assumes "file_at st d f = None \<or> file_at st d f = Some FileShort"
  shows "\<exists>code msg st'. read_state_file cfg d f st = (Inl (PANIC, code, msg), st')"
  using assms
  by (auto simp: read_state_file_def and_then_def fsync_fname_def close_file_def ereport_def)

lemma restore_loop_verified:
  assumes "read_state_file cfg nm f st = (Inr cp, st)" "record_verifies cfg cp"
  shows "restore_loop cfg nm f ib retry st = (Inr (cp, retry), st)"
  using assms by (subst restore_loop.simps) (simp add: record_verifies_def)

lemma restore_loop_panic:
  assumes "read_state_file cfg nm f st = (Inr cp, st)" "\<not> record_verifies cfg cp"
  shows "\<exists>code msg. restore_loop cfg nm f True retry st = (Inl (PANIC, code, msg), st)"
  using assms by (subst restore_loop.simps) (auto simp: record_verifies_def)

lemma restore_loop_retry:
  assumes "read_state_file cfg nm f st = (Inr cp, st)" "\<not> record_verifies cfg cp"
  shows "\<exists>code msg. restore_loop cfg nm f False retry st =
           restore_loop cfg nm ''state.backup'' True True
             (st\<lparr>server_log := server_log st @ [(WARNING, code, msg)]\<rparr>)"
  using assms
  by (auto simp: restore_loop.simps[of cfg nm f False retry st] record_verifies_def)

lemma restore_into_free:
  assumes "\<not> list_all in_use ss"
  shows "\<exists>k. k < length ss \<and> \<not> in_use (ss ! k) \<and> (\<forall>j<k. in_use (ss ! j)) \<and>
           restore_into cp ss =
             Some (ss[k := (ss ! k)\<lparr>data := slotdata cp,
                   effective_xmin := xmin (slotdata cp),
                   effective_catalog_xmin := catalog_xmin (slotdata cp),
                   candidate_catalog_xmin := InvalidTransactionId,
                   candidate_xmin_lsn := InvalidXLogRecPtr,
                   candidate_restart_lsn := InvalidXLogRecPtr,
                   candidate_restart_valid := InvalidXLogRecPtr,
                   in_use := True,
                   active := False\<rparr>])"
  using assms
proof (induction ss)
  case Nil
  then show ?case by simp
next
  case (Cons s ss)
  show ?case
  proof (cases "in_use s")
    case False
    then show ?thesis by (intro exI[of _ 0]) simp
  next
    case True
    then have "\<not> list_all in_use ss" using Cons.prems by simp
    from Cons.IH[OF this] obtain k where k: "k < length ss" "\<not> in_use (ss ! k)"
      "\<forall>j<k. in_use (ss ! j)"
      "restore_into cp ss =
             Some (ss[k := (ss ! k)\<lparr>data := slotdata cp,
                   effective_xmin := xmin (slotdata cp),
                   effective_catalog_xmin := catalog_xmin (slotdata cp),
                   candidate_catalog_xmin := InvalidTransactionId,
                   candidate_xmin_lsn := InvalidXLogRecPtr,
                   candidate_restart_lsn := InvalidXLogRecPtr,
                   candidate_restart_valid := InvalidXLogRecPtr,
                   in_use := True,
                   active := False\<rparr>])" by blast
    have "\<forall>j<Suc k. in_use ((s # ss) ! j)"
      using k(3) True by (auto simp: nth_Cons split: nat.splits)
    then show ?thesis using k True by (intro exI[of _ "Suc k"]) simp
  qed
qed

lemma restore_into_full: "list_all in_use ss \<Longrightarrow> restore_into cp ss = None"
  by (induction ss) auto

text \<open>
  Claim C1. Let a save of a slot succeed, the persistent data it wrote to \<open>state\<close>
  being that of a persistent slot. A restore of the slot directory at a later startup,
  on the disk as the save left it, with the same record constants, no failing system
  call and an array with a free entry, returns; it fills the first free entry and
  changes no other. The entry's persistent data equal the saved data, its effective
  xmin and catalog xmin are the saved xmin and catalog xmin, its candidate fields are
  cleared, and it is in use and not active.
\<close>

theorem RestoreSlotFromDisk_after_save:
  assumes i: "i < length (replication_slots st)"
    and ok: "save_succeeded st i (SaveSlotToPath cfg other i dir lvl st)"
    and pers: "persistency (data (slot_at_state_copy other (replication_slots st ! i))) = RS_PERSISTENT"
    and disk: "pg_replslot st2 = pg_replslot (snd (SaveSlotToPath cfg other i dir lvl st))"
    and free: "\<not> list_all in_use (replication_slots st2)"
    and same: "SLOT_MAGIC cfg' = SLOT_MAGIC cfg"
      "ReplicationSlotOnDiskDynamicSize cfg' = ReplicationSlotOnDiskDynamicSize cfg"
      "comp_crc32c cfg' = comp_crc32c cfg"
    and io: "\<forall>op f. \<not> io_fail cfg' op dir f"
  shows "\<exists>k e. k < length (replication_slots st2) \<and> \<not> in_use (replication_slots st2 ! k) \<and>
      (\<forall>j<k. in_use (replication_slots st2 ! j)) \<and>
      RestoreSlotFromDisk cfg' dir st2 =
        (Inr (), st2\<lparr>replication_slots := (replication_slots st2)[k := e]\<rparr>) \<and>
      data e = data (slot_at_state_copy other (replication_slots st ! i)) \<and>
      effective_xmin e = xmin (data e) \<and>
      effective_catalog_xmin e = catalog_xmin (data e) \<and>
      candidate_catalog_xmin e = InvalidTransactionId \<and>
      candidate_xmin_lsn e = InvalidXLogRecPtr \<and>
      candidate_restart_lsn e = InvalidXLogRecPtr \<and>
      candidate_restart_valid e = InvalidXLogRecPtr \<and>
      in_use e \<and> \<not> active e"
proof -
  let ?cp = "build_record cfg (slot_at_state_copy other (replication_slots st ! i))"
  have sio: "dir_exists st dir" "save_io_ok cfg dir"
    using SaveSlotToPath_success_io[OF ok] by blast+
  then obtain files where f: "pg_replslot st dir = Some files"
    by (auto simp: dir_exists_def)
  have d: "dirty (replication_slots st ! i)" using ok by (simp add: save_succeeded_def)
  have tmp: "file_at st2 dir ''state.tmp'' = None"
    and state: "file_at st2 dir ''state'' = Some (FileRecord ?cp)"
    using disk by (simp_all add: SaveSlotToPath_eq[OF i d f sio(2)] file_at_def)
  have v: "record_verifies cfg' ?cp"
    using same by (simp add: record_verifies_def build_record_def)
  have rd: "read_state_file cfg' dir ''state'' st2 = (Inr ?cp, st2)"
    using read_state_file_eq[OF state] io by blast
  have loop: "restore_loop cfg' dir ''state'' False False st2 = (Inr (?cp, False), st2)"
    by (rule restore_loop_verified[OF rd v])
  obtain k where k: "k < length (replication_slots st2)" "\<not> in_use (replication_slots st2 ! k)"
      "\<forall>j<k. in_use (replication_slots st2 ! j)"
      "restore_into ?cp (replication_slots st2) =
             Some ((replication_slots st2)[k := (replication_slots st2 ! k)\<lparr>data := slotdata ?cp,
                   effective_xmin := xmin (slotdata ?cp),
                   effective_catalog_xmin := catalog_xmin (slotdata ?cp),
                   candidate_catalog_xmin := InvalidTransactionId,
                   candidate_xmin_lsn := InvalidXLogRecPtr,
                   candidate_restart_lsn := InvalidXLogRecPtr,
                   candidate_restart_valid := InvalidXLogRecPtr,
                   in_use := True,
                   active := False\<rparr>])"
    using restore_into_free[OF free, of ?cp] by blast
  have sd: "slotdata ?cp = data (slot_at_state_copy other (replication_slots st ! i))"
    by (simp add: build_record_def)
  have "RestoreSlotFromDisk cfg' dir st2 =
        (Inr (), st2\<lparr>replication_slots := (replication_slots st2)[k := (replication_slots st2 ! k)\<lparr>data := slotdata ?cp,
                   effective_xmin := xmin (slotdata ?cp),
                   effective_catalog_xmin := catalog_xmin (slotdata ?cp),
                   candidate_catalog_xmin := InvalidTransactionId,
                   candidate_xmin_lsn := InvalidXLogRecPtr,
                   candidate_restart_lsn := InvalidXLogRecPtr,
                   candidate_restart_valid := InvalidXLogRecPtr,
                   in_use := True,
                   active := False\<rparr>]\<rparr>)"
    using io tmp pers
    by (simp add: RestoreSlotFromDisk_def Let_def set_file_absent and_then_def loop k(4) sd)
  then show ?thesis using k(1,2,3) sd
    by (intro exI[of _ k] exI[of _ "(replication_slots st2 ! k)\<lparr>data := slotdata ?cp,
                   effective_xmin := xmin (slotdata ?cp),
                   effective_catalog_xmin := catalog_xmin (slotdata ?cp),
                   candidate_catalog_xmin := InvalidTransactionId,
                   candidate_xmin_lsn := InvalidXLogRecPtr,
                   candidate_restart_lsn := InvalidXLogRecPtr,
                   candidate_restart_valid := InvalidXLogRecPtr,
                   in_use := True,
                   active := False\<rparr>"]) simp
qed

text \<open>
  The slot \<open>s1\<close>, at position 0x1000, is saved; a server then starts on the
  directory the save left, with two zeroed entries. The restore fills entry 0 with the
  saved data, in use and not active.
\<close>

theorem RestoreSlotFromDisk_after_save_witness:
  "save_succeeded backend_before_save 0
     (SaveSlotToPath example_env (\<lambda>j s. s) 0 ''s1'' ERROR backend_before_save) \<and>
   \<not> list_all in_use (replication_slots (backend_at_startup
       (pg_replslot (snd (SaveSlotToPath example_env (\<lambda>j s. s) 0 ''s1'' ERROR backend_before_save))))) \<and>
   (\<exists>e. RestoreSlotFromDisk example_env ''s1'' (backend_at_startup
           (pg_replslot (snd (SaveSlotToPath example_env (\<lambda>j s. s) 0 ''s1'' ERROR backend_before_save))))
         = (Inr (), (backend_at_startup
           (pg_replslot (snd (SaveSlotToPath example_env (\<lambda>j s. s) 0 ''s1'' ERROR backend_before_save))))
              \<lparr>replication_slots := [e, zeroed_slot]\<rparr>) \<and>
        data e = data dirty_slot \<and> restart_lsn (data e) = 0x1000 \<and>
        effective_xmin e = xmin (data e) \<and> effective_catalog_xmin e = catalog_xmin (data e) \<and>
        in_use e \<and> \<not> active e)"
proof -
  let ?disk = "pg_replslot (snd (SaveSlotToPath example_env (\<lambda>j s. s) 0 ''s1'' ERROR backend_before_save))"
  let ?st2 = "backend_at_startup ?disk"
  have h1: "0 < length (replication_slots backend_before_save)"
    by (simp add: backend_before_save_def example_backend_def)
  have n: "replication_slots backend_before_save ! 0 = dirty_slot"
    by (simp add: backend_before_save_def example_backend_def)
  have c: "data (slot_at_state_copy (\<lambda>j s. s) (replication_slots backend_before_save ! 0)) = data dirty_slot"
    unfolding n by (simp add: slot_at_state_copy_def slot_at_backup_copy_def)
  have h3: "persistency (data (slot_at_state_copy (\<lambda>j s. s) (replication_slots backend_before_save ! 0)))
              = RS_PERSISTENT"
    unfolding c by (simp add: dirty_slot_def slot_in_use_def)
  have h4: "pg_replslot ?st2 = ?disk"
    by (simp add: backend_at_startup_def)
  have sl: "replication_slots ?st2 = [zeroed_slot, zeroed_slot]"
    by (simp add: backend_at_startup_def example_backend_def)
  have h5: "\<not> list_all in_use (replication_slots ?st2)"
    unfolding sl by (simp add: zeroed_slot_def)
  have h9: "\<forall>op f. \<not> io_fail example_env op ''s1'' f"
    by (simp add: example_env_def)
  obtain k e where r: "k < length (replication_slots ?st2)"
      "\<forall>j<k. in_use (replication_slots ?st2 ! j)"
      "RestoreSlotFromDisk example_env ''s1'' ?st2 =
        (Inr (), ?st2\<lparr>replication_slots := (replication_slots ?st2)[k := e]\<rparr>)"
      "data e = data (slot_at_state_copy (\<lambda>j s. s) (replication_slots backend_before_save ! 0))"
      "effective_xmin e = xmin (data e)" "effective_catalog_xmin e = catalog_xmin (data e)"
      "in_use e" "\<not> active e"
    using RestoreSlotFromDisk_after_save [OF h1 example_save_succeeded h3 h4 h5 refl refl refl h9]
    by blast
  have "k = 0"
  proof (rule ccontr)
    assume "k \<noteq> 0"
    then have "in_use (replication_slots ?st2 ! 0)" using r(2) by simp
    then show False unfolding sl by (simp add: zeroed_slot_def)
  qed
  then have upd: "(replication_slots ?st2)[k := e] = [e, zeroed_slot]"
    unfolding sl by simp
  have lsn: "restart_lsn (data e) = 0x1000"
    unfolding r(4) c by (simp add: dirty_slot_def slot_in_use_def)
  show ?thesis
    using example_save_succeeded h5 r(3)[unfolded upd] r(4)[unfolded c] lsn r(5,6,7,8)
    by (intro conjI exI[of _ e])
qed


lemma RecoverReplSlotFile_eq:
  assumes "file_at st nm ''state'' = Some c" "\<forall>op f. \<not> io_fail cfg op nm f"
  shows "RecoverReplSlotFile cfg cp nm st =
           (Inr (), set_file nm ''state'' (Some (FileRecord cp))
                      (st\<lparr>server_log := server_log st @ [recover_warning]\<rparr>))"
  using assms by (simp add: RecoverReplSlotFile_def Let_def file_at_def recover_warning_def)

text \<open>
  Claim C2, amended. Restoring a slot directory in which no \<open>state.tmp\<close> was left,
  with no failing system call: if the record in \<open>state\<close> fails the checksum, magic or
  length test, the restorer warns and reads \<open>state.backup\<close>. If that file holds a
  record that passes the three tests and is of a persistent slot, the restorer reports
  the recovery, rewrites \<open>state\<close> with this record, and returns when the array has a
  free entry. If the record of \<open>state.backup\<close> passes the tests and is not of a
  persistent slot, the restorer, after the one warning and with no report of a
  recovery, removes the slot directory, so that nothing is rewritten, fills no array
  entry, and returns unless the fsync of \<open>pg_replslot\<close> fails. If \<open>state.backup\<close> holds
  no record that passes the tests, the restorer stops with a \<open>PANIC\<close> after the one
  warning.
\<close>

theorem RestoreSlotFromDisk_retries_backup:
  assumes tmp: "file_at st nm ''state.tmp'' = None"
    and prim: "file_at st nm ''state'' = Some (FileRecord cp)" "\<not> record_verifies cfg cp"
    and io: "\<forall>op f. \<not> io_fail cfg op nm f"
  shows "\<exists>w. fst w = WARNING \<and>
     (\<forall>cb. file_at st nm ''state.backup'' = Some (FileRecord cb) \<and> record_verifies cfg cb \<and>
           persistency (slotdata cb) = RS_PERSISTENT \<longrightarrow>
        server_log (snd (RestoreSlotFromDisk cfg nm st)) = server_log st @ [w, recover_warning] \<and>
        file_at (snd (RestoreSlotFromDisk cfg nm st)) nm ''state'' = Some (FileRecord cb) \<and>
        (\<not> list_all in_use (replication_slots st) \<longrightarrow>
           fst (RestoreSlotFromDisk cfg nm st) = Inr ())) \<and>
     (\<forall>cb. file_at st nm ''state.backup'' = Some (FileRecord cb) \<and> record_verifies cfg cb \<and>
           persistency (slotdata cb) \<noteq> RS_PERSISTENT \<longrightarrow>
        server_log (snd (RestoreSlotFromDisk cfg nm st)) = server_log st @ [w] \<and>
        pg_replslot (snd (RestoreSlotFromDisk cfg nm st)) = (pg_replslot st)(nm := None) \<and>
        replication_slots (snd (RestoreSlotFromDisk cfg nm st)) = replication_slots st \<and>
        (\<not> io_fail cfg IO_FSYNC_FNAME [] [] \<longrightarrow>
           fst (RestoreSlotFromDisk cfg nm st) = Inr ())) \<and>
     ((\<forall>cb. file_at st nm ''state.backup'' = Some (FileRecord cb) \<longrightarrow> \<not> record_verifies cfg cb) \<longrightarrow>
        (\<exists>code msg. fst (RestoreSlotFromDisk cfg nm st) = Inl (PANIC, code, msg)) \<and>
        server_log (snd (RestoreSlotFromDisk cfg nm st)) = server_log st @ [w])"
proof -
  have rd: "read_state_file cfg nm ''state'' st = (Inr cp, st)"
    using read_state_file_eq[OF prim(1)] io by blast
  obtain code msg where retry:
    "restore_loop cfg nm ''state'' False False st =
       restore_loop cfg nm ''state.backup'' True True
         (st\<lparr>server_log := server_log st @ [(WARNING, code, msg)]\<rparr>)"
    using restore_loop_retry[OF rd prim(2)] by blast
  let ?w = "(WARNING, code, msg)"
  let ?st1 = "st\<lparr>server_log := server_log st @ [?w]\<rparr>"
  have R: "RestoreSlotFromDisk cfg nm st =
      and_then (restore_loop cfg nm ''state.backup'' True True ?st1)
                   (\<lambda>r st3.
                      if persistency (slotdata (fst r)) \<noteq> RS_PERSISTENT then
                        (case rmtree cfg nm st3 of
                           (False, st4) \<Rightarrow>
                             and_then
                               (ereport WARNING ERRCODE_FILE_ACCESS
                                  ''could not remove directory'' st4)
                               (\<lambda>_ st5. fsync_fname cfg False [] [] st5)
                         | (True, st4) \<Rightarrow> fsync_fname cfg False [] [] st4)
                      else
                        and_then
                          (if snd r then RecoverReplSlotFile cfg (fst r) nm st3 else (Inr (), st3))
                          (\<lambda>_ st4.
                             case restore_into (fst r) (replication_slots st4) of
                               None \<Rightarrow>
                                 (Inl (PANIC, ERRCODE_UNSPECIFIED,
                                       ''too many replication slots active before shutdown''), st4)
                             | Some slots \<Rightarrow> (Inr (), st4\<lparr>replication_slots := slots\<rparr>)))"
    using io tmp
    by (simp add: RestoreSlotFromDisk_def Let_def set_file_absent retry
        and_then_def[of "(Inr (), st)"])
  have good: "server_log (snd (RestoreSlotFromDisk cfg nm st)) = server_log st @ [?w, recover_warning] \<and>
        file_at (snd (RestoreSlotFromDisk cfg nm st)) nm ''state'' = Some (FileRecord cb) \<and>
        (\<not> list_all in_use (replication_slots st) \<longrightarrow>
           fst (RestoreSlotFromDisk cfg nm st) = Inr ())"
    if b: "file_at st nm ''state.backup'' = Some (FileRecord cb)" "record_verifies cfg cb"
      "persistency (slotdata cb) = RS_PERSISTENT" for cb
  proof -
    have b1: "file_at ?st1 nm ''state.backup'' = Some (FileRecord cb)"
      using b(1) by (simp add: file_at_def)
    have rdb: "read_state_file cfg nm ''state.backup'' ?st1 = (Inr cb, ?st1)"
      using read_state_file_eq[OF b1] io by blast
    have loop: "restore_loop cfg nm ''state.backup'' True True ?st1 = (Inr (cb, True), ?st1)"
      by (rule restore_loop_verified[OF rdb b(2)])
    have p1: "file_at ?st1 nm ''state'' = Some (FileRecord cp)"
      using prim(1) by (simp add: file_at_def)
    have rec: "RecoverReplSlotFile cfg cb nm ?st1 =
           (Inr (), set_file nm ''state'' (Some (FileRecord cb))
                      (?st1\<lparr>server_log := server_log ?st1 @ [recover_warning]\<rparr>))"
      by (rule RecoverReplSlotFile_eq[OF p1 io])
    show ?thesis
    proof (cases "list_all in_use (replication_slots st)")
      case True
      then show ?thesis
        using b(3) prim(1)
        by (simp add: R loop and_then_def rec restore_into_full set_file_def file_at_def
            split: option.splits)
    next
      case False
      obtain k where "restore_into cb (replication_slots st) =
             Some ((replication_slots st)[k := (replication_slots st ! k)\<lparr>data := slotdata cb,
                   effective_xmin := xmin (slotdata cb),
                   effective_catalog_xmin := catalog_xmin (slotdata cb),
                   candidate_catalog_xmin := InvalidTransactionId,
                   candidate_xmin_lsn := InvalidXLogRecPtr,
                   candidate_restart_lsn := InvalidXLogRecPtr,
                   candidate_restart_valid := InvalidXLogRecPtr,
                   in_use := True,
                   active := False\<rparr>])"
        using restore_into_free[OF False, of cb] by blast
      then show ?thesis
        using b(3) prim(1)
        by (simp add: R loop and_then_def rec set_file_def file_at_def split: option.splits)
    qed
  qed
  have eph: "server_log (snd (RestoreSlotFromDisk cfg nm st)) = server_log st @ [?w] \<and>
        pg_replslot (snd (RestoreSlotFromDisk cfg nm st)) = (pg_replslot st)(nm := None) \<and>
        replication_slots (snd (RestoreSlotFromDisk cfg nm st)) = replication_slots st \<and>
        (\<not> io_fail cfg IO_FSYNC_FNAME [] [] \<longrightarrow>
           fst (RestoreSlotFromDisk cfg nm st) = Inr ())"
    if b: "file_at st nm ''state.backup'' = Some (FileRecord cb)" "record_verifies cfg cb"
      "persistency (slotdata cb) \<noteq> RS_PERSISTENT" for cb
  proof -
    have b1: "file_at ?st1 nm ''state.backup'' = Some (FileRecord cb)"
      using b(1) by (simp add: file_at_def)
    have rdb: "read_state_file cfg nm ''state.backup'' ?st1 = (Inr cb, ?st1)"
      using read_state_file_eq[OF b1] io by blast
    have loop: "restore_loop cfg nm ''state.backup'' True True ?st1 = (Inr (cb, True), ?st1)"
      by (rule restore_loop_verified[OF rdb b(2)])
    have rm: "rmtree cfg nm ?st1 = (True, ?st1\<lparr>pg_replslot := (pg_replslot ?st1)(nm := None)\<rparr>)"
      using io by (simp add: rmtree_def)
    show ?thesis
      using b(3) by (simp add: R loop and_then_def rm fsync_fname_def)
  qed
  have bad: "(\<exists>code msg. fst (RestoreSlotFromDisk cfg nm st) = Inl (PANIC, code, msg)) \<and>
        server_log (snd (RestoreSlotFromDisk cfg nm st)) = server_log st @ [?w]"
    if nb: "\<forall>cb. file_at st nm ''state.backup'' = Some (FileRecord cb) \<longrightarrow> \<not> record_verifies cfg cb"
  proof (cases "file_at st nm ''state.backup''")
    case None
    then have "file_at ?st1 nm ''state.backup'' = None" by (simp add: file_at_def)
    then show ?thesis
      using io
      by (simp add: R restore_loop.simps[of cfg nm "''state.backup''" True True ?st1]
          read_state_file_def and_then_def)
  next
    case (Some c)
    show ?thesis
    proof (cases c)
      case FileShort
      then have "file_at ?st1 nm ''state.backup'' = Some FileShort"
        using Some by (simp add: file_at_def)
      then show ?thesis
        using io
        by (simp add: R restore_loop.simps[of cfg nm "''state.backup''" True True ?st1]
            read_state_file_def and_then_def fsync_fname_def close_file_def)
    next
      case (FileRecord cb)
      then have b1: "file_at ?st1 nm ''state.backup'' = Some (FileRecord cb)"
        using Some by (simp add: file_at_def)
      have nv: "\<not> record_verifies cfg cb" using nb Some FileRecord by simp
      have rdb: "read_state_file cfg nm ''state.backup'' ?st1 = (Inr cb, ?st1)"
        using read_state_file_eq[OF b1] io by blast
      obtain c m where "restore_loop cfg nm ''state.backup'' True True ?st1 = (Inl (PANIC, c, m), ?st1)"
        using restore_loop_panic[OF rdb nv] by blast
      then show ?thesis by (simp add: R and_then_def)
    qed
  qed
  show ?thesis
    using good eph bad by (intro exI[of _ ?w]) simp
qed

lemma good_record_verifies: "record_verifies example_env good_record"
  by (simp add: record_verifies_def good_record_def build_record_def example_env_def)

lemma bad_record_fails: "\<not> record_verifies example_env bad_record"
  by (simp add: record_verifies_def bad_record_def good_record_def build_record_def
      example_env_def example_crc_def slot_in_use_def zeroed_slot_def)

text \<open>
  Claim C2, as stated, at a slot directory that holds \<open>state.tmp\<close> beside a
  \<open>state\<close> with a wrong checksum and a \<open>state.backup\<close> that passes every test.
  The restorer unlinks \<open>state.tmp\<close> and, having found it, \<open>state.backup\<close>; the
  checksum failure on \<open>state\<close> is then a \<open>PANIC\<close> at once: no warning, no read
  of the backup, and \<open>state\<close> is left as it was.
\<close>

theorem RestoreSlotFromDisk_state_tmp_no_retry:
  "file_at (backend_at_startup disk_with_tmp) ''s1'' ''state'' = Some (FileRecord bad_record) \<and>
   \<not> record_verifies example_env bad_record \<and>
   file_at (backend_at_startup disk_with_tmp) ''s1'' ''state.backup'' = Some (FileRecord good_record) \<and>
   record_verifies example_env good_record \<and>
   fst (RestoreSlotFromDisk example_env ''s1'' (backend_at_startup disk_with_tmp)) =
     Inl (PANIC, ERRCODE_UNSPECIFIED, ''checksum mismatch'') \<and>
   server_log (snd (RestoreSlotFromDisk example_env ''s1'' (backend_at_startup disk_with_tmp))) = [] \<and>
   file_at (snd (RestoreSlotFromDisk example_env ''s1'' (backend_at_startup disk_with_tmp)))
     ''s1'' ''state'' = Some (FileRecord bad_record)"
proof -
  have io: "\<And>op d f. \<not> io_fail example_env op d f" by (simp add: example_env_def)
  have crc: "comp_crc32c example_env (slotdata bad_record) \<noteq> checksum bad_record"
    by (simp add: bad_record_def good_record_def build_record_def
      example_env_def example_crc_def slot_in_use_def zeroed_slot_def)
  have "RestoreSlotFromDisk example_env ''s1'' (backend_at_startup disk_with_tmp) =
     (Inl (PANIC, ERRCODE_UNSPECIFIED, ''checksum mismatch''),
      (backend_at_startup disk_with_tmp)\<lparr>pg_replslot := [''s1'' \<mapsto> [''state'' \<mapsto> FileRecord bad_record]]\<rparr>)"
    by (simp add: RestoreSlotFromDisk_def io Let_def file_at_def set_file_def and_then_def
        backend_at_startup_def example_backend_def disk_with_tmp_def restore_loop.simps
        read_state_file_def fsync_fname_def close_file_def crc fun_upd_twist)
  then show ?thesis
    using good_record_verifies bad_record_fails
    by (simp add: file_at_def backend_at_startup_def example_backend_def disk_with_tmp_def)
qed


text \<open>
  The same directory without \<open>state.tmp\<close>: one warning, the report of the recovery,
  \<open>state\<close> rewritten with the record of the backup, and the restore returns. And a
  directory whose backup is the record of an ephemeral slot: one warning and no other
  report, the directory removed, both array entries still zeroed.
\<close>

theorem RestoreSlotFromDisk_retries_backup_witness:
  "file_at (backend_at_startup disk_bad_primary) ''s1'' ''state.tmp'' = None \<and>
   file_at (backend_at_startup disk_bad_primary) ''s1'' ''state'' = Some (FileRecord bad_record) \<and>
   \<not> record_verifies example_env bad_record \<and>
   (\<exists>w. fst w = WARNING \<and>
        server_log (snd (RestoreSlotFromDisk example_env ''s1'' (backend_at_startup disk_bad_primary)))
          = [w, recover_warning]) \<and>
   file_at (snd (RestoreSlotFromDisk example_env ''s1'' (backend_at_startup disk_bad_primary)))
     ''s1'' ''state'' = Some (FileRecord good_record) \<and>
   fst (RestoreSlotFromDisk example_env ''s1'' (backend_at_startup disk_bad_primary)) = Inr () \<and>
   file_at (backend_at_startup disk_ephemeral_backup) ''e1'' ''state.tmp'' = None \<and>
   file_at (backend_at_startup disk_ephemeral_backup) ''e1'' ''state'' = Some (FileRecord bad_record) \<and>
   file_at (backend_at_startup disk_ephemeral_backup) ''e1'' ''state.backup'' =
     Some (FileRecord (build_record example_env (slot_in_use ''e1'' 0 RS_EPHEMERAL 0))) \<and>
   (\<exists>w. fst w = WARNING \<and>
        server_log (snd (RestoreSlotFromDisk example_env ''e1'' (backend_at_startup disk_ephemeral_backup)))
          = [w]) \<and>
   pg_replslot (snd (RestoreSlotFromDisk example_env ''e1'' (backend_at_startup disk_ephemeral_backup)))
     ''e1'' = None \<and>
   replication_slots (snd (RestoreSlotFromDisk example_env ''e1'' (backend_at_startup disk_ephemeral_backup)))
     = [zeroed_slot, zeroed_slot] \<and>
   fst (RestoreSlotFromDisk example_env ''e1'' (backend_at_startup disk_ephemeral_backup)) = Inr ()"
proof -
  let ?st = "backend_at_startup disk_bad_primary"
  have h1: "file_at ?st ''s1'' ''state.tmp'' = None"
    and h2: "file_at ?st ''s1'' ''state'' = Some (FileRecord bad_record)"
    and b: "file_at ?st ''s1'' ''state.backup'' = Some (FileRecord good_record)"
    by (simp_all add: file_at_def backend_at_startup_def example_backend_def disk_bad_primary_def)
  have h4: "\<forall>op f. \<not> io_fail example_env op ''s1'' f" by (simp add: example_env_def)
  have p: "persistency (slotdata good_record) = RS_PERSISTENT"
    by (simp add: good_record_def build_record_def slot_in_use_def)
  have free: "\<not> list_all in_use (replication_slots ?st)"
    by (simp add: backend_at_startup_def example_backend_def zeroed_slot_def)
  have l: "server_log ?st = []" by (simp add: backend_at_startup_def example_backend_def)
  obtain w where w: "fst w = WARNING"
    "\<forall>cb. file_at ?st ''s1'' ''state.backup'' = Some (FileRecord cb) \<and> record_verifies example_env cb \<and>
           persistency (slotdata cb) = RS_PERSISTENT \<longrightarrow>
        server_log (snd (RestoreSlotFromDisk example_env ''s1'' ?st)) = server_log ?st @ [w, recover_warning] \<and>
        file_at (snd (RestoreSlotFromDisk example_env ''s1'' ?st)) ''s1'' ''state'' = Some (FileRecord cb) \<and>
        (\<not> list_all in_use (replication_slots ?st) \<longrightarrow>
           fst (RestoreSlotFromDisk example_env ''s1'' ?st) = Inr ())"
    using RestoreSlotFromDisk_retries_backup [OF h1 h2 bad_record_fails h4] by blast
  have r: "server_log (snd (RestoreSlotFromDisk example_env ''s1'' ?st)) = server_log ?st @ [w, recover_warning]"
    "file_at (snd (RestoreSlotFromDisk example_env ''s1'' ?st)) ''s1'' ''state'' = Some (FileRecord good_record)"
    "fst (RestoreSlotFromDisk example_env ''s1'' ?st) = Inr ()"
    using w(2) b good_record_verifies p free by blast+
  have first: "\<exists>w. fst w = WARNING \<and>
        server_log (snd (RestoreSlotFromDisk example_env ''s1'' ?st)) = [w, recover_warning]"
    using w(1) r(1) unfolding l by (intro exI[of _ w]) simp
  let ?se = "backend_at_startup disk_ephemeral_backup"
  let ?ce = "build_record example_env (slot_in_use ''e1'' 0 RS_EPHEMERAL 0)"
  have e1: "file_at ?se ''e1'' ''state.tmp'' = None"
    and e2: "file_at ?se ''e1'' ''state'' = Some (FileRecord bad_record)"
    and eb: "file_at ?se ''e1'' ''state.backup'' = Some (FileRecord ?ce)"
    by (simp_all add: file_at_def backend_at_startup_def example_backend_def
        disk_ephemeral_backup_def)
  have e4: "\<forall>op f. \<not> io_fail example_env op ''e1'' f" by (simp add: example_env_def)
  have ep: "persistency (slotdata ?ce) \<noteq> RS_PERSISTENT"
    by (simp add: build_record_def slot_in_use_def)
  have ef: "\<not> io_fail example_env IO_FSYNC_FNAME [] []" by (simp add: example_env_def)
  have el: "server_log ?se = []" by (simp add: backend_at_startup_def example_backend_def)
  have es: "replication_slots ?se = [zeroed_slot, zeroed_slot]"
    by (simp add: backend_at_startup_def example_backend_def)
  obtain v where v: "fst v = WARNING"
    "\<forall>cb. file_at ?se ''e1'' ''state.backup'' = Some (FileRecord cb) \<and> record_verifies example_env cb \<and>
           persistency (slotdata cb) \<noteq> RS_PERSISTENT \<longrightarrow>
        server_log (snd (RestoreSlotFromDisk example_env ''e1'' ?se)) = server_log ?se @ [v] \<and>
        pg_replslot (snd (RestoreSlotFromDisk example_env ''e1'' ?se)) = (pg_replslot ?se)(''e1'' := None) \<and>
        replication_slots (snd (RestoreSlotFromDisk example_env ''e1'' ?se)) = replication_slots ?se \<and>
        (\<not> io_fail example_env IO_FSYNC_FNAME [] [] \<longrightarrow>
           fst (RestoreSlotFromDisk example_env ''e1'' ?se) = Inr ())"
    using RestoreSlotFromDisk_retries_backup [OF e1 e2 bad_record_fails e4] by blast
  have q: "server_log (snd (RestoreSlotFromDisk example_env ''e1'' ?se)) = server_log ?se @ [v]"
    "pg_replslot (snd (RestoreSlotFromDisk example_env ''e1'' ?se)) = (pg_replslot ?se)(''e1'' := None)"
    "replication_slots (snd (RestoreSlotFromDisk example_env ''e1'' ?se)) = replication_slots ?se"
    "fst (RestoreSlotFromDisk example_env ''e1'' ?se) = Inr ()"
    using v(2) eb build_record_verifies[of example_env "slot_in_use ''e1'' 0 RS_EPHEMERAL 0"] ep ef
    by blast+
  have second: "\<exists>w. fst w = WARNING \<and>
        server_log (snd (RestoreSlotFromDisk example_env ''e1'' ?se)) = [w]"
    using v(1) q(1) unfolding el by (intro exI[of _ v]) simp
  have gone: "pg_replslot (snd (RestoreSlotFromDisk example_env ''e1'' ?se)) ''e1'' = None"
    unfolding q(2) by simp
  show ?thesis
    using h1 h2 bad_record_fails first r(2,3) e1 e2 eb second gone q(3)[unfolded es] q(4)
    by (intro conjI)
qed

text \<open>
  The same by evaluation: when the backup that passes the tests is the record of an
  ephemeral slot, the test on the persistency comes before the call of
  \<open>RecoverReplSlotFile\<close>. The one report is the warning of the retry; the directory is
  removed, nothing is rewritten and no entry is filled.
\<close>

lemma ephemeral_backup_not_rewritten:
  "fst (RestoreSlotFromDisk example_env ''e1'' (backend_at_startup disk_ephemeral_backup)) = Inr () \<and>
   server_log (snd (RestoreSlotFromDisk example_env ''e1'' (backend_at_startup disk_ephemeral_backup)))
     = [(WARNING, ERRCODE_UNSPECIFIED, ''checksum mismatch, try backup file'')] \<and>
   pg_replslot (snd (RestoreSlotFromDisk example_env ''e1'' (backend_at_startup disk_ephemeral_backup)))
     = Map.empty \<and>
   replication_slots (snd (RestoreSlotFromDisk example_env ''e1'' (backend_at_startup disk_ephemeral_backup)))
     = [zeroed_slot, zeroed_slot]"
proof -
  have io: "\<And>op d f. \<not> io_fail example_env op d f" by (simp add: example_env_def)
  have crc: "comp_crc32c example_env (slotdata bad_record) \<noteq> checksum bad_record"
    by (simp add: bad_record_def good_record_def build_record_def
      example_env_def example_crc_def slot_in_use_def zeroed_slot_def)
  have c: "SLOT_MAGIC example_env = 0x1051CA1" "ReplicationSlotOnDiskDynamicSize example_env = 104"
    "comp_crc32c example_env = example_crc"
    by (simp_all add: example_env_def)
  have crc': "example_crc (slotdata bad_record) \<noteq> checksum bad_record"
    using crc by (simp add: c)
  show ?thesis
    by (simp add: RestoreSlotFromDisk_def io Let_def file_at_def set_file_def and_then_def
        backend_at_startup_def example_backend_def disk_ephemeral_backup_def restore_loop.simps
        read_state_file_def fsync_fname_def close_file_def crc' rmtree_def build_record_def
        slot_in_use_def c)
qed


subsection \<open>Release of an ephemeral slot\<close>

lemma slots_ComputeRequiredXmin [simp]:
  "replication_slots (ReplicationSlotsComputeRequiredXmin cfg b st) = replication_slots st"
  "MyReplicationSlot (ReplicationSlotsComputeRequiredXmin cfg b st) = MyReplicationSlot st"
  "held_lwlocks (ReplicationSlotsComputeRequiredXmin cfg b st) = held_lwlocks st"
  "server_log (ReplicationSlotsComputeRequiredXmin cfg b st) = server_log st"
  "pg_replslot (ReplicationSlotsComputeRequiredXmin cfg b st) = pg_replslot st"
  by (simp_all add: ReplicationSlotsComputeRequiredXmin_def Let_def
      ProcArraySetReplicationSlotXmin_def LWLockAcquire_def LWLockRelease_def)

lemma slots_ComputeRequiredLSN [simp]:
  "replication_slots (snd (ReplicationSlotsComputeRequiredLSN cfg x st)) = replication_slots st"
  "MyReplicationSlot (snd (ReplicationSlotsComputeRequiredLSN cfg x st)) = MyReplicationSlot st"
  "held_lwlocks (snd (ReplicationSlotsComputeRequiredLSN cfg x st)) = held_lwlocks st"
  "server_log (snd (ReplicationSlotsComputeRequiredLSN cfg x st)) = server_log st"
  "pg_replslot (snd (ReplicationSlotsComputeRequiredLSN cfg x st)) = pg_replslot st"
  by (simp_all add: ReplicationSlotsComputeRequiredLSN_def Let_def
      LWLockAcquire_def LWLockRelease_def split: option.splits)

lemma find_scan_set:
  "find_scan n ss = (\<exists>s\<in>set ss. in_use s \<and> name (data s) = n)"
  by (induction ss) auto

lemma find_scan_iff:
  "find_scan n ss = (\<exists>j<length ss. in_use (ss ! j) \<and> name (data (ss ! j)) = n)"
  unfolding find_scan_set by (metis in_set_conv_nth)

lemma ValidateName_ok:
  assumes "n \<noteq> []" "length n < NAMEDATALEN cfg" "\<forall>c\<in>set n. slot_name_char c"
  shows "ReplicationSlotValidateName cfg (Some n) lvl st = (Inr True, st)"
  using assms by (simp add: ReplicationSlotValidateName_def name_chars_ok_iff)

lemma ReplicationSlotFind_valid:
  assumes "n \<noteq> []" "length n < NAMEDATALEN cfg" "\<forall>c\<in>set n. slot_name_char c"
  shows "ReplicationSlotFind cfg (Some n) st = (Inr (find_scan n (replication_slots st)), st)"
  using assms
  by (simp add: ReplicationSlotFind_def ValidateName_ok Let_def LWLockAcquire_def
      LWLockRelease_def)

lemma DropAcquired_ephemeral:
  assumes "MyReplicationSlot st = Some i" "i < length (replication_slots st)"
    "persistency (data (replication_slots st ! i)) = RS_EPHEMERAL"
  shows "(\<not> io_fail cfg IO_FSYNC_FNAME (name (data (replication_slots st ! i)) @ ''.tmp'') [] \<and>
          \<not> io_fail cfg IO_FSYNC_FNAME [] [] \<longrightarrow>
            fst (ReplicationSlotDropAcquired cfg st) = Inr ()) \<and>
         (fst (ReplicationSlotDropAcquired cfg st) = Inr () \<longrightarrow>
            replication_slots (snd (ReplicationSlotDropAcquired cfg st)) =
              (replication_slots st)[i := (replication_slots st ! i)\<lparr>active := False, in_use := False\<rparr>] \<and>
            MyReplicationSlot (snd (ReplicationSlotDropAcquired cfg st)) = None)"
  using assms
  by (auto simp: ReplicationSlotDropAcquired_def Let_def and_then_def fsync_fname_def
      ereport_def slot_update_def LWLockAcquire_def LWLockRelease_def rmtree_def
      split: option.splits if_splits prod.splits bool.splits)

text \<open>
  Claim C8. Let the session's current slot be active and ephemeral, its name valid and
  borne by no other slot in use. \<open>ReplicationSlotRelease\<close> returns unless one of the
  two \<open>fsync_fname\<close> calls of the drop's critical section fails; and when it has
  returned, the array entry is neither in use nor active, the session has no current
  slot, and \<open>ReplicationSlotFind\<close> on the name returns false.
\<close>

theorem ReplicationSlotRelease_drops_ephemeral:
  assumes cur: "MyReplicationSlot st = Some i" "i < length (replication_slots st)"
    and act: "active (replication_slots st ! i)"
    and eph: "persistency (data (replication_slots st ! i)) = RS_EPHEMERAL"
    and uniq: "\<forall>j<length (replication_slots st). j \<noteq> i \<and> in_use (replication_slots st ! j) \<longrightarrow>
                 name (data (replication_slots st ! j)) \<noteq> name (data (replication_slots st ! i))"
    and valid: "name (data (replication_slots st ! i)) \<noteq> []"
      "length (name (data (replication_slots st ! i))) < NAMEDATALEN cfg"
      "\<forall>c\<in>set (name (data (replication_slots st ! i))). slot_name_char c"
  shows "(\<not> io_fail cfg IO_FSYNC_FNAME (name (data (replication_slots st ! i)) @ ''.tmp'') [] \<and>
          \<not> io_fail cfg IO_FSYNC_FNAME [] [] \<longrightarrow>
            fst (ReplicationSlotRelease cfg st) = Inr ()) \<and>
         (fst (ReplicationSlotRelease cfg st) = Inr () \<longrightarrow>
            \<not> in_use (replication_slots (snd (ReplicationSlotRelease cfg st)) ! i) \<and>
            \<not> active (replication_slots (snd (ReplicationSlotRelease cfg st)) ! i) \<and>
            MyReplicationSlot (snd (ReplicationSlotRelease cfg st)) = None \<and>
            fst (ReplicationSlotFind cfg (Some (name (data (replication_slots st ! i))))
                   (snd (ReplicationSlotRelease cfg st))) = Inr False)"
proof -
  let ?n = "name (data (replication_slots st ! i))"
  let ?D = "ReplicationSlotDropAcquired cfg st"
  let ?R = "ReplicationSlotRelease cfg st"
  note drop = DropAcquired_ephemeral[OF cur eph, of cfg]
  have tot: "fst ?D = Inr () \<Longrightarrow> fst ?R = Inr ()"
    using cur act eph
    by (cases ?D) (simp add: ReplicationSlotRelease_def and_then_def Let_def)
  have part1: "\<not> io_fail cfg IO_FSYNC_FNAME (?n @ ''.tmp'') [] \<and> \<not> io_fail cfg IO_FSYNC_FNAME [] [] \<longrightarrow>
            fst ?R = Inr ()"
    using drop tot by blast
  have part2: "\<not> in_use (replication_slots (snd ?R) ! i) \<and>
            \<not> active (replication_slots (snd ?R) ! i) \<and>
            MyReplicationSlot (snd ?R) = None \<and>
            fst (ReplicationSlotFind cfg (Some ?n) (snd ?R)) = Inr False"
    if r: "fst ?R = Inr ()"
  proof -
    have dr: "fst ?D = Inr ()"
      using r cur act eph
      by (cases ?D; cases "fst ?D")
         (auto simp: ReplicationSlotRelease_def and_then_def Let_def)
    have s1: "replication_slots (snd ?D) =
              (replication_slots st)[i := (replication_slots st ! i)\<lparr>active := False, in_use := False\<rparr>]"
      using drop dr by blast
    have len: "length (replication_slots (snd ?R)) = length (replication_slots st)"
      and at_i: "\<not> in_use (replication_slots (snd ?R) ! i) \<and> \<not> active (replication_slots (snd ?R) ! i)"
      and others: "\<forall>j. j \<noteq> i \<longrightarrow> replication_slots (snd ?R) ! j = replication_slots st ! j"
      and my: "MyReplicationSlot (snd ?R) = None"
      using cur act eph dr s1
      by (cases ?D; auto simp: ReplicationSlotRelease_def and_then_def Let_def slot_update_def
          LWLockAcquire_def LWLockRelease_def)+
    have "\<not> find_scan ?n (replication_slots (snd ?R))"
      unfolding find_scan_iff using len at_i others uniq by metis
    then show ?thesis
      using at_i my by (simp add: ReplicationSlotFind_valid[OF valid])
  qed
  show ?thesis using part1 part2 by blast
qed

text \<open>The session releases its active ephemeral slot \<open>e1\<close>.\<close>

theorem ReplicationSlotRelease_drops_ephemeral_witness:
  "MyReplicationSlot backend_with_ephemeral = Some 0 \<and>
   active (replication_slots backend_with_ephemeral ! 0) \<and>
   persistency (data (replication_slots backend_with_ephemeral ! 0)) = RS_EPHEMERAL \<and>
   name (data (replication_slots backend_with_ephemeral ! 0)) = ''e1'' \<and>
   fst (ReplicationSlotRelease example_env backend_with_ephemeral) = Inr () \<and>
   \<not> in_use (replication_slots (snd (ReplicationSlotRelease example_env backend_with_ephemeral)) ! 0) \<and>
   \<not> active (replication_slots (snd (ReplicationSlotRelease example_env backend_with_ephemeral)) ! 0) \<and>
   MyReplicationSlot (snd (ReplicationSlotRelease example_env backend_with_ephemeral)) = None \<and>
   fst (ReplicationSlotFind example_env (Some ''e1'')
          (snd (ReplicationSlotRelease example_env backend_with_ephemeral))) = Inr False"
proof -
  let ?st = "backend_with_ephemeral"
  have sl: "replication_slots ?st = [(slot_in_use ''e1'' 0 RS_EPHEMERAL 0)\<lparr>active := True\<rparr>, zeroed_slot]"
    by (simp add: backend_with_ephemeral_def example_backend_def)
  have h1: "MyReplicationSlot ?st = Some 0"
    by (simp add: backend_with_ephemeral_def example_backend_def)
  have h2: "0 < length (replication_slots ?st)" unfolding sl by simp
  have h3: "active (replication_slots ?st ! 0)" unfolding sl by simp
  have h4: "persistency (data (replication_slots ?st ! 0)) = RS_EPHEMERAL"
    unfolding sl by (simp add: slot_in_use_def)
  have n: "name (data (replication_slots ?st ! 0)) = ''e1''"
    unfolding sl by (simp add: slot_in_use_def)
  have h5: "\<forall>j<length (replication_slots ?st). j \<noteq> 0 \<and> in_use (replication_slots ?st ! j) \<longrightarrow>
                 name (data (replication_slots ?st ! j)) \<noteq> name (data (replication_slots ?st ! 0))"
    unfolding sl by (simp add: zeroed_slot_def less_Suc_eq)
  have h6: "name (data (replication_slots ?st ! 0)) \<noteq> []"
    and h7: "length (name (data (replication_slots ?st ! 0))) < NAMEDATALEN example_env"
    and h8: "\<forall>c\<in>set (name (data (replication_slots ?st ! 0))). slot_name_char c"
    unfolding n by (simp_all add: example_env_def slot_name_char_def)
  have io: "\<not> io_fail example_env IO_FSYNC_FNAME (name (data (replication_slots ?st ! 0)) @ ''.tmp'') [] \<and>
          \<not> io_fail example_env IO_FSYNC_FNAME [] []"
    by (simp add: example_env_def)
  note T = ReplicationSlotRelease_drops_ephemeral [OF h1 h2 h3 h4 h5 h6 h7 h8]
  have r: "fst (ReplicationSlotRelease example_env ?st) = Inr ()"
    using T[THEN conjunct1] io by (rule mp)
  note rest = T[THEN conjunct2, THEN mp, OF r, unfolded n]
  show ?thesis
    using h1 h3 h4 n r rest by (intro conjI) blast+
qed


subsection \<open>Creating a slot under a name in use\<close>

lemma create_scan_dup:
  "find_scan n ss \<Longrightarrow> \<exists>k. create_scan n ss i slot = Inl k"
  by (induction ss arbitrary: i slot) (auto split: if_splits)

lemma acquire_scan_found:
  "find_scan n ss \<Longrightarrow>
   \<exists>k. acquire_scan n ss i = Some (i + k) \<and> k < length ss \<and> in_use (ss ! k) \<and>
       name (data (ss ! k)) = n \<and> (\<forall>j<k. \<not> (in_use (ss ! j) \<and> name (data (ss ! j)) = n))"
proof (induction ss arbitrary: i)
  case Nil
  then show ?case by simp
next
  case (Cons s ss)
  show ?case
  proof (cases "in_use s \<and> n = name (data s)")
    case True
    then show ?thesis by (intro exI[of _ 0]) simp
  next
    case False
    then have "find_scan n ss" using Cons.prems by auto
    from Cons.IH[OF this, of "Suc i"] obtain k where k:
      "acquire_scan n ss (Suc i) = Some (Suc i + k)" "k < length ss" "in_use (ss ! k)"
      "name (data (ss ! k)) = n" "\<forall>j<k. \<not> (in_use (ss ! j) \<and> name (data (ss ! j)) = n)"
      by blast
    have "\<forall>j<Suc k. \<not> (in_use ((s # ss) ! j) \<and> name (data ((s # ss) ! j)) = n)"
      using k(5) False by (auto simp: nth_Cons split: nat.splits)
    then show ?thesis using k False by (intro exI[of _ "Suc k"]) auto
  qed
qed

lemma Acquire_found:
  assumes valid: "n \<noteq> []" "length n < NAMEDATALEN cfg" "\<forall>c\<in>set n. slot_name_char c"
    and dup: "find_scan n (replication_slots st)"
  shows "\<exists>k. k < length (replication_slots st) \<and> in_use (replication_slots st ! k) \<and>
           name (data (replication_slots st ! k)) = n \<and>
           (\<forall>j<k. \<not> (in_use (replication_slots st ! j) \<and> name (data (replication_slots st ! j)) = n)) \<and>
           active (replication_slots (snd (ReplicationSlotAcquire cfg (Some n) isDummy st)) ! k) \<and>
           held_lwlocks (snd (ReplicationSlotAcquire cfg (Some n) isDummy st)) = held_lwlocks st \<and>
           (\<exists>rest. server_log (snd (ReplicationSlotAcquire cfg (Some n) isDummy st)) = server_log st @ rest) \<and>
           (fst (ReplicationSlotAcquire cfg (Some n) isDummy st) = Inr () \<longrightarrow>
              MyReplicationSlot (snd (ReplicationSlotAcquire cfg (Some n) isDummy st)) = Some k)"
proof -
  obtain k where k: "acquire_scan n (replication_slots st) 0 = Some k"
    "k < length (replication_slots st)" "in_use (replication_slots st ! k)"
    "name (data (replication_slots st ! k)) = n"
    "\<forall>j<k. \<not> (in_use (replication_slots st ! j) \<and> name (data (replication_slots st ! j)) = n)"
    using acquire_scan_found[OF dup, of 0] by auto
  show ?thesis
    using k
    by (intro exI[of _ k])
       (auto simp: ReplicationSlotAcquire_def ValidateName_ok[OF valid] and_then_def Let_def
          LWLockAcquire_def LWLockRelease_def slot_update_def ereport_def)
qed

text \<open>
  Claim C5, amended. \<open>ReplicationSlotCreate\<close> with a valid name that a slot in use
  bears: for a logical slot (\<open>databaseId\<close> not \<open>InvalidOid\<close>) it raises
  \<open>ERRCODE_DUPLICATE_OBJECT\<close> at \<open>ERROR\<close> with both locks released and the state as
  it was, so every array entry unchanged and the session's current slot as before. For
  a physical slot it reports \<open>ERRCODE_DUPLICATE_OBJECT\<close> at \<open>WARNING\<close>, both locks
  released, and goes on as \<open>ReplicationSlotAcquire\<close> of that name does: the slot in
  use under the name is marked active, and when the call returns it is the session's
  current slot.
\<close>

theorem ReplicationSlotCreate_duplicate:
  assumes valid: "n \<noteq> []" "length n < NAMEDATALEN cfg" "\<forall>c\<in>set n. slot_name_char c"
    and dup: "find_scan n (replication_slots st)"
  shows "(databaseId \<noteq> InvalidOid \<longrightarrow>
           (\<exists>msg. ReplicationSlotCreate cfg (Some n) pers isDummy databaseId lsn st =
                    (Inl (ERROR, ERRCODE_DUPLICATE_OBJECT, msg), st))) \<and>
         (databaseId = InvalidOid \<longrightarrow>
           (\<exists>msg k.
              ReplicationSlotCreate cfg (Some n) pers isDummy databaseId lsn st =
                ReplicationSlotAcquire cfg (Some n) isDummy
                  (st\<lparr>server_log := server_log st @ [(WARNING, ERRCODE_DUPLICATE_OBJECT, msg)]\<rparr>) \<and>
              k < length (replication_slots st) \<and> in_use (replication_slots st ! k) \<and>
              name (data (replication_slots st ! k)) = n \<and>
              active (replication_slots
                        (snd (ReplicationSlotCreate cfg (Some n) pers isDummy databaseId lsn st)) ! k) \<and>
              held_lwlocks (snd (ReplicationSlotCreate cfg (Some n) pers isDummy databaseId lsn st))
                = held_lwlocks st \<and>
              (fst (ReplicationSlotCreate cfg (Some n) pers isDummy databaseId lsn st) = Inr () \<longrightarrow>
                 MyReplicationSlot
                   (snd (ReplicationSlotCreate cfg (Some n) pers isDummy databaseId lsn st)) = Some k)))"
proof (intro conjI impI)
  obtain d where d: "create_scan n (replication_slots st) 0 None = Inl d"
    using create_scan_dup[OF dup] by blast
  {
    assume "databaseId \<noteq> InvalidOid"
    then show "\<exists>msg. ReplicationSlotCreate cfg (Some n) pers isDummy databaseId lsn st =
                    (Inl (ERROR, ERRCODE_DUPLICATE_OBJECT, msg), st)"
      using d
      by (simp add: ReplicationSlotCreate_def ValidateName_ok[OF valid] and_then_def Let_def
          LWLockAcquire_def LWLockRelease_def ereport_def)
  }
  {
    assume phys: "databaseId = InvalidOid"
    let ?st1 = "st\<lparr>server_log := server_log st @
                 [(WARNING, ERRCODE_DUPLICATE_OBJECT, ''replication slot already exists'')]\<rparr>"
    have eq: "ReplicationSlotCreate cfg (Some n) pers isDummy databaseId lsn st =
                ReplicationSlotAcquire cfg (Some n) isDummy ?st1"
      using d phys
      by (simp add: ReplicationSlotCreate_def ValidateName_ok[OF valid] and_then_def Let_def
          LWLockAcquire_def LWLockRelease_def ereport_def)
    have dup1: "find_scan n (replication_slots ?st1)" using dup by simp
    from Acquire_found[OF valid dup1, of isDummy] obtain k where
      "k < length (replication_slots st)" "in_use (replication_slots st ! k)"
      "name (data (replication_slots st ! k)) = n"
      "active (replication_slots (snd (ReplicationSlotAcquire cfg (Some n) isDummy ?st1)) ! k)"
      "held_lwlocks (snd (ReplicationSlotAcquire cfg (Some n) isDummy ?st1)) = held_lwlocks st"
      "fst (ReplicationSlotAcquire cfg (Some n) isDummy ?st1) = Inr () \<longrightarrow>
              MyReplicationSlot (snd (ReplicationSlotAcquire cfg (Some n) isDummy ?st1)) = Some k"
      by auto
    then show "\<exists>msg k.
              ReplicationSlotCreate cfg (Some n) pers isDummy databaseId lsn st =
                ReplicationSlotAcquire cfg (Some n) isDummy
                  (st\<lparr>server_log := server_log st @ [(WARNING, ERRCODE_DUPLICATE_OBJECT, msg)]\<rparr>) \<and>
              k < length (replication_slots st) \<and> in_use (replication_slots st ! k) \<and>
              name (data (replication_slots st ! k)) = n \<and>
              active (replication_slots
                        (snd (ReplicationSlotCreate cfg (Some n) pers isDummy databaseId lsn st)) ! k) \<and>
              held_lwlocks (snd (ReplicationSlotCreate cfg (Some n) pers isDummy databaseId lsn st))
                = held_lwlocks st \<and>
              (fst (ReplicationSlotCreate cfg (Some n) pers isDummy databaseId lsn st) = Inr () \<longrightarrow>
                 MyReplicationSlot
                   (snd (ReplicationSlotCreate cfg (Some n) pers isDummy databaseId lsn st)) = Some k)"
      unfolding eq
      by (intro exI[of _ "''replication slot already exists''"] exI[of _ k]) simp
  }
qed

text \<open>
  Claim C5, as stated, at an array whose one entry is the inactive physical slot
  \<open>s1\<close>, for a session without a current slot that creates a physical slot \<open>s1\<close>:
  the call returns, the entry is now active, and it is the session's current slot.
\<close>

theorem ReplicationSlotCreate_duplicate_physical_acquires:
  "MyReplicationSlot (example_backend [slot_in_use ''s1'' 0 RS_PERSISTENT 0]) = None \<and>
   \<not> active (replication_slots (example_backend [slot_in_use ''s1'' 0 RS_PERSISTENT 0]) ! 0) \<and>
   fst (ReplicationSlotCreate example_env (Some ''s1'') RS_PERSISTENT False InvalidOid 0
          (example_backend [slot_in_use ''s1'' 0 RS_PERSISTENT 0])) = Inr () \<and>
   active (replication_slots (snd
     (ReplicationSlotCreate example_env (Some ''s1'') RS_PERSISTENT False InvalidOid 0
          (example_backend [slot_in_use ''s1'' 0 RS_PERSISTENT 0]))) ! 0) \<and>
   MyReplicationSlot (snd
     (ReplicationSlotCreate example_env (Some ''s1'') RS_PERSISTENT False InvalidOid 0
          (example_backend [slot_in_use ''s1'' 0 RS_PERSISTENT 0]))) = Some 0"
proof -
  have v: "\<And>lvl st. ReplicationSlotValidateName example_env (Some ''s1'') lvl st = (Inr True, st)"
    by (rule ValidateName_ok) (simp_all add: example_env_def slot_name_char_def)
  have "ReplicationSlotCreate example_env (Some ''s1'') RS_PERSISTENT False InvalidOid 0
          (example_backend [slot_in_use ''s1'' 0 RS_PERSISTENT 0]) =
        (Inr (), (example_backend [(slot_in_use ''s1'' 0 RS_PERSISTENT 0)\<lparr>active := True\<rparr>])
           \<lparr>MyReplicationSlot := Some 0,
            server_log := [(WARNING, ERRCODE_DUPLICATE_OBJECT, ''replication slot already exists'')]\<rparr>)"
    by (simp add: ReplicationSlotCreate_def ReplicationSlotAcquire_def v and_then_def Let_def
        LWLockAcquire_def LWLockRelease_def ereport_def example_backend_def slot_in_use_def
        zeroed_slot_def slot_update_def InvalidOid_def)
  then show ?thesis
    by (simp add: example_backend_def slot_in_use_def zeroed_slot_def)
qed

text \<open>The same array and name: the logical create raises, the physical one goes on to acquire.\<close>

theorem ReplicationSlotCreate_duplicate_witness:
  "find_scan ''s1'' (replication_slots (example_backend [slot_in_use ''s1'' 0 RS_PERSISTENT 0])) \<and>
   (\<exists>msg. ReplicationSlotCreate example_env (Some ''s1'') RS_PERSISTENT False 5 0
            (example_backend [slot_in_use ''s1'' 0 RS_PERSISTENT 0]) =
          (Inl (ERROR, ERRCODE_DUPLICATE_OBJECT, msg),
           example_backend [slot_in_use ''s1'' 0 RS_PERSISTENT 0])) \<and>
   (\<exists>msg. ReplicationSlotCreate example_env (Some ''s1'') RS_PERSISTENT False InvalidOid 0
            (example_backend [slot_in_use ''s1'' 0 RS_PERSISTENT 0]) =
          ReplicationSlotAcquire example_env (Some ''s1'') False
            ((example_backend [slot_in_use ''s1'' 0 RS_PERSISTENT 0])
               \<lparr>server_log := server_log (example_backend [slot_in_use ''s1'' 0 RS_PERSISTENT 0]) @
                                [(WARNING, ERRCODE_DUPLICATE_OBJECT, msg)]\<rparr>))"
proof -
  let ?st = "example_backend [slot_in_use ''s1'' 0 RS_PERSISTENT 0]"
  have h1: "''s1'' \<noteq> []" and h2: "length ''s1'' < NAMEDATALEN example_env"
    and h3: "\<forall>c\<in>set ''s1''. slot_name_char c"
    by (simp_all add: example_env_def slot_name_char_def)
  have h4: "find_scan ''s1'' (replication_slots ?st)"
    by (simp add: example_backend_def slot_in_use_def)
  have l: "(5::Oid) \<noteq> InvalidOid" by (simp add: InvalidOid_def)
  note logical = ReplicationSlotCreate_duplicate [OF h1 h2 h3 h4, of 5 RS_PERSISTENT False 0,
      THEN conjunct1, THEN mp, OF l]
  note physical = ReplicationSlotCreate_duplicate [OF h1 h2 h3 h4, of InvalidOid RS_PERSISTENT False 0,
      THEN conjunct2, THEN mp, OF refl]
  have "\<exists>msg. ReplicationSlotCreate example_env (Some ''s1'') RS_PERSISTENT False InvalidOid 0 ?st =
          ReplicationSlotAcquire example_env (Some ''s1'') False
            (?st\<lparr>server_log := server_log ?st @ [(WARNING, ERRCODE_DUPLICATE_OBJECT, msg)]\<rparr>)"
    using physical by blast
  then show ?thesis using h4 logical by (intro conjI)
qed

end
